theory Spec2Isabelle
  imports Complex_Main
begin

section \<open>Smart multiplug: a shallow embedding of \<open>app.py\<close>\<close>

text \<open>
  The development follows \<open>app.py\<close> function by function. Conventions:
  \<^item> A Python \<open>float\<close> is idealised as a \<open>real\<close>: finite values, exact arithmetic.
    Infinities, NaN, rounding to 53 bits and the OverflowError of \<open>float\<close> on a huge
    \<open>int\<close> are outside the model.
  \<^item> A Python \<open>int\<close> is an \<open>int\<close>, a \<open>str\<close> is a \<open>string\<close> (ASCII).
  \<^item> An exception is a value \<open>Inl e\<close> of a sum type; a normal result is \<open>Inr v\<close>.
  \<^item> The four tables are lists of rows in insertion (rowid) order. The surrogate \<open>id\<close>
    columns and the \<open>timestamp\<close> column of \<open>realtime_data\<close> are never read by the
    program and are left out. \<open>query.filter_by(...).first()\<close> is \<open>find\<close>,
    \<open>query.filter_by(...).delete()\<close> removes every matching row.
  \<^item> \<open>datetime.now()\<close> is a parameter \<open>now\<close>; all the clock reads of one request
    see the same date.
  \<^item> \<open>socketio.emit('data_update', view)\<close> appends \<open>view\<close> to the log \<open>emitted\<close>.
\<close>

subsection \<open>Python values\<close>

datatype py_error = TypeError | ValueError | KeyError

text \<open>
  JSON values as Python objects: what \<open>request.get_json()\<close> returns and what
  \<open>jsonify\<close> and \<open>socketio.emit\<close> receive. A \<open>dict\<close> is an association list read
  with \<open>map_of\<close>.
\<close>

datatype jval =
    JNull
  | JBool bool
  | JInt int
  | JFloat real
  | JStr string
  | JArr "jval list"
  | JObj "(string \<times> jval) list"

text \<open>
  Parsing of a \<open>str\<close> by Python's \<open>int(..)\<close> and \<open>float(..)\<close> belongs to the
  interpreter, not to the program. It is a parameter of the model: \<open>None\<close> stands for
  the ValueError that Python raises on a string it does not accept.
\<close>

record pylib =
  int_of_str :: "string \<Rightarrow> int option"
  float_of_str :: "string \<Rightarrow> real option"

text \<open>\<open>int(x)\<close>: truncation toward zero on a float, 0/1 on a bool.\<close>

fun py_int :: "pylib \<Rightarrow> jval \<Rightarrow> py_error + int" where
  "py_int L (JInt n) = Inr n"
| "py_int L (JFloat x) = Inr (if 0 \<le> x then \<lfloor>x\<rfloor> else \<lceil>x\<rceil>)"
| "py_int L (JBool b) = Inr (if b then 1 else 0)"
| "py_int L (JStr s) = (case int_of_str L s of None \<Rightarrow> Inl ValueError | Some n \<Rightarrow> Inr n)"
| "py_int L JNull = Inl TypeError"
| "py_int L (JArr xs) = Inl TypeError"
| "py_int L (JObj d) = Inl TypeError"

text \<open>\<open>float(x)\<close>.\<close>

fun py_float :: "pylib \<Rightarrow> jval \<Rightarrow> py_error + real" where
  "py_float L (JInt n) = Inr (of_int n)"
| "py_float L (JFloat x) = Inr x"
| "py_float L (JBool b) = Inr (if b then 1 else 0)"
| "py_float L (JStr s) = (case float_of_str L s of None \<Rightarrow> Inl ValueError | Some x \<Rightarrow> Inr x)"
| "py_float L JNull = Inl TypeError"
| "py_float L (JArr xs) = Inl TypeError"
| "py_float L (JObj d) = Inl TypeError"

text \<open>\<open>str(n)\<close> for an \<open>int\<close>, as the f-strings of the program use it.\<close>

fun str_nat :: "nat \<Rightarrow> string" where
  "str_nat n =
     (if n < 10 then [''0123456789'' ! n]
      else str_nat (n div 10) @ [''0123456789'' ! (n mod 10)])"

declare str_nat.simps [simp del]

definition str_int :: "int \<Rightarrow> string" where
  "str_int i = (if i < 0 then CHR ''-'' # str_nat (nat (- i)) else str_nat (nat i))"

text \<open>
  \<open>round(x, 2)\<close>. On an \<open>int\<close> it returns the \<open>int\<close>. On a \<open>float\<close> it rounds the
  exact value to the nearest multiple of 1/100, a tie going to the even multiple.
\<close>

definition round_half_even :: "real \<Rightarrow> int" where
  "round_half_even y =
     (let f = \<lfloor>y\<rfloor>; d = y - of_int f in
      if d < 1 / 2 then f
      else if 1 / 2 < d then f + 1
      else if even f then f else f + 1)"

definition round2 :: "real \<Rightarrow> real" where
  "round2 x = of_int (round_half_even (x * 100)) / 100"

text \<open>
  The running totals of the dashboard start as the \<open>int\<close> 0 and become a \<open>float\<close> with
  the first \<open>+=\<close> of a \<open>float\<close>; \<open>round\<close> keeps the type.
\<close>

datatype pynum = PInt int | PFloat real

fun py_add :: "pynum \<Rightarrow> real \<Rightarrow> pynum" where
  "py_add (PInt n) x = PFloat (of_int n + x)"
| "py_add (PFloat y) x = PFloat (y + x)"

fun py_round2 :: "pynum \<Rightarrow> pynum" where
  "py_round2 (PInt n) = PInt n"
| "py_round2 (PFloat x) = PFloat (round2 x)"

fun to_json :: "pynum \<Rightarrow> jval" where
  "to_json (PInt n) = JInt n"
| "to_json (PFloat x) = JFloat x"

fun value_of :: "pynum \<Rightarrow> real" where
  "value_of (PInt n) = of_int n"
| "value_of (PFloat x) = x"

text \<open>The number a JSON value denotes.\<close>

fun num_of :: "jval \<Rightarrow> real" where
  "num_of (JInt n) = of_int n"
| "num_of (JFloat x) = x"
| "num_of v = 0"

text \<open>\<open>d[k]\<close> where the key is known to be there: reading a field of a view.\<close>

fun jget :: "jval \<Rightarrow> string \<Rightarrow> jval option" where
  "jget (JObj d) k = map_of d k"
| "jget v k = None"

subsection \<open>Dates\<close>

record date =
  year :: int
  month :: int
  day :: int

definition is_leap :: "int \<Rightarrow> bool" where
  "is_leap y = (y mod 4 = 0 \<and> (y mod 100 \<noteq> 0 \<or> y mod 400 = 0))"

definition month_length :: "int \<Rightarrow> int \<Rightarrow> int" where
  "month_length y m =
     (if m = 2 then (if is_leap y then 29 else 28)
      else if m = 4 \<or> m = 6 \<or> m = 9 \<or> m = 11 then 30 else 31)"

text \<open>\<open>d + timedelta(days=1)\<close> and \<open>d - timedelta(days=1)\<close>.\<close>

definition next_day :: "date \<Rightarrow> date" where
  "next_day d =
     (if day d < month_length (year d) (month d) then d\<lparr>day := day d + 1\<rparr>
      else if month d < 12 then d\<lparr>month := month d + 1, day := 1\<rparr>
      else d\<lparr>year := year d + 1, month := 1, day := 1\<rparr>)"

definition prev_day :: "date \<Rightarrow> date" where
  "prev_day d =
     (if 1 < day d then d\<lparr>day := day d - 1\<rparr>
      else if 1 < month d then d\<lparr>month := month d - 1, day := month_length (year d) (month d - 1)\<rparr>
      else d\<lparr>year := year d - 1, month := 12, day := 31\<rparr>)"

fun add_days :: "nat \<Rightarrow> date \<Rightarrow> date" where
  "add_days 0 d = d"
| "add_days (Suc n) d = add_days n (next_day d)"

subsection \<open>\<open>format_runtime\<close>\<close>

text \<open>Python's \<open>//\<close> and \<open>%\<close> on \<open>int\<close> are floor division and its remainder, as \<open>div\<close> and \<open>mod\<close> are.\<close>

definition format_runtime :: "int \<Rightarrow> string" where
  "format_runtime minutes =
     (let hours = minutes div 60; mins = minutes mod 60
      in str_int hours @ ''h '' @ str_int mins @ ''m'')"

subsection \<open>Tables and the application state\<close>

record realtime_row =
  rt_port :: int
  rt_voltage :: real
  rt_current :: real
  rt_power :: real
  rt_status :: string

record daily_row =
  dc_date :: date
  dc_port :: int
  dc_energy_kwh :: real
  dc_cost_bdt :: real
  dc_runtime_minutes :: int

record monthly_row =
  mc_year :: int
  mc_month :: int
  mc_port :: int
  mc_energy_kwh :: real
  mc_cost_bdt :: real

record settings_row =
  st_key :: string
  st_value :: string

record app_state =
  realtime_tbl :: "realtime_row list"
  daily_tbl :: "daily_row list"
  monthly_tbl :: "monthly_row list"
  settings_tbl :: "settings_row list"
  emitted :: "jval list"

text \<open>
  The mapped objects on the Python side. SQLAlchemy applies a column's
  \<open>default=\<close> when it emits the INSERT, at flush time: the constructor sets only the
  attributes it is given, and an attribute that was never set reads \<open>None\<close> on an object
  that has not been flushed. An object loaded from a row carries the row's values; a
  stored row holds a number in every column, since each INSERT fills the defaults. An
  object that was added to the session and never flushed is dropped with the session at
  the end of the request, so an exception before the commit leaves the tables as they
  were.
\<close>

record daily_obj =
  o_date :: date
  o_port :: int
  o_energy_kwh :: "real option"
  o_cost_bdt :: "real option"
  o_runtime_minutes :: "int option"

record monthly_obj =
  p_year :: int
  p_month :: int
  p_port :: int
  p_energy_kwh :: "real option"
  p_cost_bdt :: "real option"

definition DailyConsumption :: "date \<Rightarrow> int \<Rightarrow> daily_obj" where
  "DailyConsumption d p =
     \<lparr>o_date = d, o_port = p, o_energy_kwh = None, o_cost_bdt = None, o_runtime_minutes = None\<rparr>"

definition MonthlyConsumption :: "int \<Rightarrow> int \<Rightarrow> int \<Rightarrow> monthly_obj" where
  "MonthlyConsumption y m p =
     \<lparr>p_year = y, p_month = m, p_port = p, p_energy_kwh = None, p_cost_bdt = None\<rparr>"

definition daily_loaded :: "daily_row \<Rightarrow> daily_obj" where
  "daily_loaded r =
     \<lparr>o_date = dc_date r, o_port = dc_port r, o_energy_kwh = Some (dc_energy_kwh r),
      o_cost_bdt = Some (dc_cost_bdt r), o_runtime_minutes = Some (dc_runtime_minutes r)\<rparr>"

definition monthly_loaded :: "monthly_row \<Rightarrow> monthly_obj" where
  "monthly_loaded r =
     \<lparr>p_year = mc_year r, p_month = mc_month r, p_port = mc_port r,
      p_energy_kwh = Some (mc_energy_kwh r), p_cost_bdt = Some (mc_cost_bdt r)\<rparr>"

text \<open>The row a flush writes for an object; an unset attribute takes the column default.\<close>

definition daily_flush :: "daily_obj \<Rightarrow> daily_row" where
  "daily_flush obj =
     \<lparr>dc_date = o_date obj, dc_port = o_port obj,
      dc_energy_kwh = (case o_energy_kwh obj of None \<Rightarrow> 0 | Some e \<Rightarrow> e),
      dc_cost_bdt = (case o_cost_bdt obj of None \<Rightarrow> 0 | Some c \<Rightarrow> c),
      dc_runtime_minutes = (case o_runtime_minutes obj of None \<Rightarrow> 0 | Some m \<Rightarrow> m)\<rparr>"

definition monthly_flush :: "monthly_obj \<Rightarrow> monthly_row" where
  "monthly_flush obj =
     \<lparr>mc_year = p_year obj, mc_month = p_month obj, mc_port = p_port obj,
      mc_energy_kwh = (case p_energy_kwh obj of None \<Rightarrow> 0 | Some e \<Rightarrow> e),
      mc_cost_bdt = (case p_cost_bdt obj of None \<Rightarrow> 0 | Some c \<Rightarrow> c)\<rparr>"

text \<open>
  The UPDATE of the object that \<open>first()\<close> returned: the first row that satisfies the
  filter is replaced.
\<close>

fun write_back :: "('a \<Rightarrow> bool) \<Rightarrow> 'a \<Rightarrow> 'a list \<Rightarrow> 'a list" where
  "write_back P r [] = []"
| "write_back P r (x # xs) = (if P x then r # xs else x # write_back P r xs)"

text \<open>\<open>attr += x\<close> on an attribute that may be \<open>None\<close>.\<close>

fun py_iadd_float :: "real option \<Rightarrow> real \<Rightarrow> py_error + real" where
  "py_iadd_float None x = Inl TypeError"
| "py_iadd_float (Some a) x = Inr (a + x)"

fun py_iadd_int :: "int option \<Rightarrow> int \<Rightarrow> py_error + int" where
  "py_iadd_int None x = Inl TypeError"
| "py_iadd_int (Some a) x = Inr (a + x)"

subsection \<open>Database helper functions\<close>

definition ELECTRICITY_RATE_BDT :: real where
  "ELECTRICITY_RATE_BDT = 8.0"

definition get_electricity_rate :: "pylib \<Rightarrow> app_state \<Rightarrow> py_error + real" where
  "get_electricity_rate L s =
     (case find (\<lambda>r. st_key r = ''electricity_rate_bdt'') (settings_tbl s) of
        Some rate_setting \<Rightarrow> py_float L (JStr (st_value rate_setting))
      | None \<Rightarrow> Inr ELECTRICITY_RATE_BDT)"

definition calculate_energy_kwh :: "real \<Rightarrow> int \<Rightarrow> real" where
  "calculate_energy_kwh power_watts minutes = (power_watts * of_int minutes) / (1000 * 60)"

definition update_realtime_data :: "int \<Rightarrow> real \<Rightarrow> real \<Rightarrow> real \<Rightarrow> app_state \<Rightarrow> app_state" where
  "update_realtime_data port voltage current power_w s =
     (let status = (if power_w > 0 then ''online'' else ''offline'');
          new_data = \<lparr>rt_port = port, rt_voltage = voltage, rt_current = current,
                      rt_power = power_w, rt_status = status\<rparr>
      in s\<lparr>realtime_tbl := filter (\<lambda>r. rt_port r \<noteq> port) (realtime_tbl s) @ [new_data]\<rparr>)"

text \<open>
  \<open>update_daily_consumption\<close>. The table changes only at the final commit, so an
  exception leaves the state as it was.
\<close>

definition update_daily_consumption ::
    "pylib \<Rightarrow> date \<Rightarrow> int \<Rightarrow> real \<Rightarrow> app_state \<Rightarrow> py_error + app_state" where
  "update_daily_consumption L now port power_watts s =
     (let today = now;
          energy_kwh = calculate_energy_kwh power_watts 1
      in case get_electricity_rate L s of
           Inl e \<Rightarrow> Inl e
         | Inr rate \<Rightarrow>
          (let cost_bdt = energy_kwh * rate;
               flt = (\<lambda>r. dc_date r = today \<and> dc_port r = port);
               found = find flt (daily_tbl s);
               daily_record = (case found of None \<Rightarrow> DailyConsumption today port
                                            | Some r \<Rightarrow> daily_loaded r)
           in case py_iadd_float (o_energy_kwh daily_record) energy_kwh of
                Inl e \<Rightarrow> Inl e
              | Inr e1 \<Rightarrow>
               (case py_iadd_float (o_cost_bdt daily_record) cost_bdt of
                  Inl e \<Rightarrow> Inl e
                | Inr c1 \<Rightarrow>
                 (case (if power_watts > 0
                        then map_sum id Some (py_iadd_int (o_runtime_minutes daily_record) 1)
                        else Inr (o_runtime_minutes daily_record)) of
                    Inl e \<Rightarrow> Inl e
                  | Inr m1 \<Rightarrow>
                   (let obj = daily_record\<lparr>o_energy_kwh := Some e1, o_cost_bdt := Some c1,
                                            o_runtime_minutes := m1\<rparr>
                    in Inr (s\<lparr>daily_tbl :=
                              (case found of
                                 None \<Rightarrow> daily_tbl s @ [daily_flush obj]
                               | Some r \<Rightarrow> write_back flt (daily_flush obj) (daily_tbl s))\<rparr>))))))"

definition update_monthly_consumption ::
    "date \<Rightarrow> int \<Rightarrow> real \<Rightarrow> real \<Rightarrow> app_state \<Rightarrow> py_error + app_state" where
  "update_monthly_consumption now port energy_kwh cost_bdt s =
     (let flt = (\<lambda>r. mc_year r = year now \<and> mc_month r = month now \<and> mc_port r = port);
          found = find flt (monthly_tbl s);
          monthly_record = (case found of None \<Rightarrow> MonthlyConsumption (year now) (month now) port
                                        | Some r \<Rightarrow> monthly_loaded r)
      in case py_iadd_float (p_energy_kwh monthly_record) energy_kwh of
           Inl e \<Rightarrow> Inl e
         | Inr e1 \<Rightarrow>
          (case py_iadd_float (p_cost_bdt monthly_record) cost_bdt of
             Inl e \<Rightarrow> Inl e
           | Inr c1 \<Rightarrow>
            (let obj = monthly_record\<lparr>p_energy_kwh := Some e1, p_cost_bdt := Some c1\<rparr>
             in Inr (s\<lparr>monthly_tbl :=
                       (case found of
                          None \<Rightarrow> monthly_tbl s @ [monthly_flush obj]
                        | Some r \<Rightarrow> write_back flt (monthly_flush obj) (monthly_tbl s))\<rparr>))))"

subsection \<open>\<open>get_dashboard_data\<close>\<close>

text \<open>The key \<open>f'port{port}'\<close>.\<close>

definition port_key :: "int \<Rightarrow> string" where
  "port_key port = ''port'' @ str_int port"

text \<open>First loop: the latest reading of each port, or the all-zero offline default.\<close>

definition realtime_entry :: "realtime_row list \<Rightarrow> int \<Rightarrow> string \<times> jval" where
  "realtime_entry rows port =
     (port_key port,
      case find (\<lambda>r. rt_port r = port) rows of
        Some data \<Rightarrow>
          JObj [(''voltage'', JFloat (rt_voltage data)), (''current'', JFloat (rt_current data)),
                (''power'', JFloat (rt_power data)), (''status'', JStr (rt_status data))]
      | None \<Rightarrow>
          JObj [(''voltage'', JInt 0), (''current'', JInt 0), (''power'', JInt 0),
                (''status'', JStr ''offline'')])"

definition realtime_section :: "app_state \<Rightarrow> (string \<times> jval) list" where
  "realtime_section s = map (realtime_entry (realtime_tbl s)) [1, 2, 3, 4]"

text \<open>Second loop: today's bucket of each port and the running totals.\<close>

record today_acc =
  today_data :: "(string \<times> jval) list"
  total_today_energy :: pynum
  total_today_cost :: pynum
  total_today_runtime :: int

definition today_step :: "date \<Rightarrow> daily_row list \<Rightarrow> int \<Rightarrow> today_acc \<Rightarrow> today_acc" where
  "today_step today rows port acc =
     (case find (\<lambda>r. dc_date r = today \<and> dc_port r = port) rows of
        Some daily \<Rightarrow>
          \<lparr>today_data = today_data acc @
             [(port_key port,
               JObj [(''energy'', JFloat (round2 (dc_energy_kwh daily))),
                     (''cost'', JFloat (round2 (dc_cost_bdt daily))),
                     (''runtime'', JStr (format_runtime (dc_runtime_minutes daily)))])],
           total_today_energy = py_add (total_today_energy acc) (dc_energy_kwh daily),
           total_today_cost = py_add (total_today_cost acc) (dc_cost_bdt daily),
           total_today_runtime = total_today_runtime acc + dc_runtime_minutes daily\<rparr>
      | None \<Rightarrow>
          acc\<lparr>today_data := today_data acc @
             [(port_key port,
               JObj [(''energy'', JInt 0), (''cost'', JInt 0), (''runtime'', JStr ''0h 0m'')])]\<rparr>)"

definition today_section :: "date \<Rightarrow> app_state \<Rightarrow> (string \<times> jval) list" where
  "today_section now s =
     (let today = now;
          acc = fold (today_step today (daily_tbl s)) [1, 2, 3, 4]
                  \<lparr>today_data = [], total_today_energy = PInt 0, total_today_cost = PInt 0,
                   total_today_runtime = 0\<rparr>
      in today_data acc @
         [(''total'',
           JObj [(''energy'', to_json (py_round2 (total_today_energy acc))),
                 (''cost'', to_json (py_round2 (total_today_cost acc))),
                 (''runtime'', JStr (format_runtime (total_today_runtime acc)))])])"

text \<open>Third loop: this month's bucket of each port and the running totals.\<close>

record month_acc =
  monthly_data :: "(string \<times> jval) list"
  total_month_energy :: pynum
  total_month_cost :: pynum

definition month_step :: "int \<Rightarrow> int \<Rightarrow> monthly_row list \<Rightarrow> int \<Rightarrow> month_acc \<Rightarrow> month_acc" where
  "month_step current_year current_month rows port acc =
     (case find (\<lambda>r. mc_year r = current_year \<and> mc_month r = current_month \<and> mc_port r = port)
             rows of
        Some monthly \<Rightarrow>
          \<lparr>monthly_data = monthly_data acc @
             [(port_key port,
               JObj [(''energy'', JFloat (round2 (mc_energy_kwh monthly))),
                     (''cost'', JFloat (round2 (mc_cost_bdt monthly)))])],
           total_month_energy = py_add (total_month_energy acc) (mc_energy_kwh monthly),
           total_month_cost = py_add (total_month_cost acc) (mc_cost_bdt monthly)\<rparr>
      | None \<Rightarrow>
          acc\<lparr>monthly_data := monthly_data acc @
             [(port_key port, JObj [(''energy'', JInt 0), (''cost'', JInt 0)])]\<rparr>)"

text \<open>
  The expression bound to \<open>days_in_month\<close>: the first of the month plus 32 days, back to
  the first of that month, minus one day.
\<close>

definition days_in_month_expr :: "date \<Rightarrow> date" where
  "days_in_month_expr now = prev_day ((add_days 32 (now\<lparr>day := 1\<rparr>))\<lparr>day := 1\<rparr>)"

definition monthly_section :: "date \<Rightarrow> app_state \<Rightarrow> (string \<times> jval) list" where
  "monthly_section now s =
     (let current_month = month now;
          current_year = year now;
          acc = fold (month_step current_year current_month (monthly_tbl s)) [1, 2, 3, 4]
                  \<lparr>monthly_data = [], total_month_energy = PInt 0, total_month_cost = PInt 0\<rparr>;
          days_in_month = days_in_month_expr now;
          current_day = day now
      in monthly_data acc @
         [(''total'',
           JObj [(''energy'', to_json (py_round2 (total_month_energy acc))),
                 (''cost'', to_json (py_round2 (total_month_cost acc))),
                 (''days'', JInt current_day)])])"

definition get_dashboard_data :: "pylib \<Rightarrow> date \<Rightarrow> app_state \<Rightarrow> py_error + jval" where
  "get_dashboard_data L now s =
     (let realtime_data = realtime_section s;
          today_data = today_section now s;
          monthly_data = monthly_section now s
      in case get_electricity_rate L s of
           Inl e \<Rightarrow> Inl e
         | Inr rate \<Rightarrow>
             Inr (JObj [(''realtime'', JObj realtime_data),
                        (''today'', JObj today_data),
                        (''monthly'', JObj monthly_data),
                        (''electricity_rate'', JFloat rate)]))"

subsection \<open>API routes\<close>

text \<open>
  The three shapes of a response: \<open>{'success': True}\<close> with status 200,
  \<open>{'error': message}\<close> with status 400, and \<open>{'error': str(e)}\<close> with status 500 from the
  handler \<open>except Exception as e\<close>.
\<close>

datatype response = Success | Rejected string | Failed py_error

fun status_code :: "response \<Rightarrow> nat" where
  "status_code Success = 200"
| "status_code (Rejected msg) = 400"
| "status_code (Failed e) = 500"

text \<open>\<open>xs in ys\<close> on strings.\<close>

fun starts_with :: "string \<Rightarrow> string \<Rightarrow> bool" where
  "starts_with [] ys = True"
| "starts_with (x # xs) [] = False"
| "starts_with (x # xs) (y # ys) = (x = y \<and> starts_with xs ys)"

fun contains_str :: "string \<Rightarrow> string \<Rightarrow> bool" where
  "contains_str xs [] = (xs = [])"
| "contains_str xs (y # ys) = (starts_with xs (y # ys) \<or> contains_str xs ys)"

text \<open>
  \<open>field in data\<close>: a key of a dict, an element of a list, a substring of a str; any
  other JSON value is not iterable.
\<close>

fun py_in :: "string \<Rightarrow> jval \<Rightarrow> py_error + bool" where
  "py_in field (JObj d) = Inr (map_of d field \<noteq> None)"
| "py_in field (JArr xs) = Inr (JStr field \<in> set xs)"
| "py_in field (JStr t) = Inr (contains_str field t)"
| "py_in field v = Inl TypeError"

text \<open>\<open>all(field in data for field in required_fields)\<close> stops at the first miss.\<close>

fun all_in :: "string list \<Rightarrow> jval \<Rightarrow> py_error + bool" where
  "all_in [] data = Inr True"
| "all_in (field # rest) data =
     (case py_in field data of
        Inl e \<Rightarrow> Inl e
      | Inr False \<Rightarrow> Inr False
      | Inr True \<Rightarrow> all_in rest data)"

text \<open>\<open>data['port']\<close> with a str subscript.\<close>

fun py_getitem :: "jval \<Rightarrow> string \<Rightarrow> py_error + jval" where
  "py_getitem (JObj d) k = (case map_of d k of None \<Rightarrow> Inl KeyError | Some v \<Rightarrow> Inr v)"
| "py_getitem v k = Inl TypeError"

definition required_fields :: "string list" where
  "required_fields = [''port'', ''voltage'', ''current'', ''power'']"

text \<open>
  \<open>receive_esp_data\<close>, on the JSON value of the request body. Each helper commits on
  its own, so after an exception the state holds what the helpers before it committed.
\<close>

definition receive_esp_data :: "pylib \<Rightarrow> date \<Rightarrow> jval \<Rightarrow> app_state \<Rightarrow> response \<times> app_state" where
  "receive_esp_data L now data s =
     (case all_in required_fields data of
        Inl e \<Rightarrow> (Failed e, s)
      | Inr False \<Rightarrow> (Rejected ''Missing required fields'', s)
      | Inr True \<Rightarrow>
       (case case_sum Inl (py_int L) (py_getitem data ''port'') of
          Inl e \<Rightarrow> (Failed e, s)
        | Inr port \<Rightarrow>
          if port < 1 \<or> port > 4 then (Rejected ''Invalid port number'', s)
          else
           (case case_sum Inl (py_float L) (py_getitem data ''voltage'') of
              Inl e \<Rightarrow> (Failed e, s)
            | Inr voltage \<Rightarrow>
             (case case_sum Inl (py_float L) (py_getitem data ''current'') of
                Inl e \<Rightarrow> (Failed e, s)
              | Inr current \<Rightarrow>
               (case case_sum Inl (py_float L) (py_getitem data ''power'') of
                  Inl e \<Rightarrow> (Failed e, s)
                | Inr power_w \<Rightarrow>
                 (let s1 = update_realtime_data port voltage current power_w s
                  in case update_daily_consumption L now port power_w s1 of
                       Inl e \<Rightarrow> (Failed e, s1)
                     | Inr s2 \<Rightarrow>
                      (let energy_kwh = calculate_energy_kwh power_w 1
                       in case get_electricity_rate L s2 of
                            Inl e \<Rightarrow> (Failed e, s2)
                          | Inr rate \<Rightarrow>
                           (let cost_bdt = energy_kwh * rate
                            in case update_monthly_consumption now port energy_kwh cost_bdt s2 of
                                 Inl e \<Rightarrow> (Failed e, s2)
                               | Inr s3 \<Rightarrow>
                                (case get_dashboard_data L now s3 of
                                   Inl e \<Rightarrow> (Failed e, s3)
                                 | Inr view \<Rightarrow>
                                     (Success, s3\<lparr>emitted := emitted s3 @ [view]\<rparr>))))))))))"

definition reset_daily_data :: "pylib \<Rightarrow> date \<Rightarrow> app_state \<Rightarrow> response \<times> app_state" where
  "reset_daily_data L now s =
     (let today = now;
          s1 = s\<lparr>daily_tbl := filter (\<lambda>r. dc_date r \<noteq> today) (daily_tbl s)\<rparr>
      in case get_dashboard_data L now s1 of
           Inl e \<Rightarrow> (Failed e, s1)
         | Inr view \<Rightarrow> (Success, s1\<lparr>emitted := emitted s1 @ [view]\<rparr>))"

subsection \<open>Reading a view\<close>

text \<open>\<open>view[k1][k2]...\<close> on the nested dicts of a dashboard view.\<close>

fun jpath :: "jval \<Rightarrow> string list \<Rightarrow> jval option" where
  "jpath v [] = Some v"
| "jpath v (k # ks) = (case jget v k of None \<Rightarrow> None | Some w \<Rightarrow> jpath w ks)"

text \<open>The dict \<open>{'voltage': .., 'current': .., 'power': .., 'status': ..}\<close> of a reading.\<close>

definition reading_view :: "real \<Rightarrow> real \<Rightarrow> real \<Rightarrow> jval" where
  "reading_view voltage current power_w =
     JObj [(''voltage'', JFloat voltage), (''current'', JFloat current),
           (''power'', JFloat power_w),
           (''status'', JStr (if power_w > 0 then ''online'' else ''offline''))]"

text \<open>The stored value of a port's bucket, 0 when the port has no bucket.\<close>

definition daily_of :: "date \<Rightarrow> app_state \<Rightarrow> int \<Rightarrow> daily_row option" where
  "daily_of today s port = find (\<lambda>r. dc_date r = today \<and> dc_port r = port) (daily_tbl s)"

definition monthly_of :: "date \<Rightarrow> app_state \<Rightarrow> int \<Rightarrow> monthly_row option" where
  "monthly_of now s port =
     find (\<lambda>r. mc_year r = year now \<and> mc_month r = month now \<and> mc_port r = port) (monthly_tbl s)"

definition stored :: "('a \<Rightarrow> real) \<Rightarrow> 'a option \<Rightarrow> real" where
  "stored f b = (case b of None \<Rightarrow> 0 | Some r \<Rightarrow> f r)"

subsection \<open>Concrete inputs for the examples\<close>

text \<open>
  An instance of the parsing parameter for the closed examples: the plain decimal
  notation, an optional sign, digits, and for \<open>float\<close> an optional point with digits. On
  such a string it returns the number Python returns. The further notations Python accepts
  (surrounding blanks, underscores, exponents, \<open>inf\<close>, \<open>nan\<close>) are rejected by this
  instance; no example uses one.
\<close>

definition digit_of :: "char \<Rightarrow> nat option" where
  "digit_of c = (let n = (of_char c :: nat) in if 48 \<le> n \<and> n \<le> 57 then Some (n - 48) else None)"

fun digits_val :: "string \<Rightarrow> nat \<Rightarrow> nat option" where
  "digits_val [] acc = Some acc"
| "digits_val (c # cs) acc =
     (case digit_of c of None \<Rightarrow> None | Some d \<Rightarrow> digits_val cs (10 * acc + d))"

definition dec_int_unsigned :: "string \<Rightarrow> int option" where
  "dec_int_unsigned t = (if t = [] then None else map_option int (digits_val t 0))"

definition dec_float_unsigned :: "string \<Rightarrow> real option" where
  "dec_float_unsigned t =
     (let ip = takeWhile (\<lambda>c. c \<noteq> CHR ''.'') t;
          rest = dropWhile (\<lambda>c. c \<noteq> CHR ''.'') t;
          fp = tl rest
      in if ip = [] \<and> fp = [] then None
         else case (digits_val ip 0, digits_val fp 0) of
                (Some a, Some b) \<Rightarrow> Some (real a + real b / 10 ^ length fp)
              | _ \<Rightarrow> None)"

fun signed :: "(string \<Rightarrow> 'a option) \<Rightarrow> ('a \<Rightarrow> 'a) \<Rightarrow> string \<Rightarrow> 'a option" where
  "signed f neg [] = None"
| "signed f neg (c # cs) =
     (if c = CHR ''-'' then map_option neg (f cs)
      else if c = CHR ''+'' then f cs
      else f (c # cs))"

definition decimal_lib :: pylib where
  "decimal_lib =
     \<lparr>int_of_str = signed dec_int_unsigned uminus,
      float_of_str = signed dec_float_unsigned uminus\<rparr>"

text \<open>
  The database right after \<open>init_database()\<close>: empty tables and the default rate
  \<open>str(8.0)\<close> in the settings.
\<close>

definition fresh_db :: app_state where
  "fresh_db =
     \<lparr>realtime_tbl = [], daily_tbl = [], monthly_tbl = [],
      settings_tbl = [\<lparr>st_key = ''electricity_rate_bdt'', st_value = ''8.0''\<rparr>],
      emitted = []\<rparr>"

definition a_day :: date where
  "a_day = \<lparr>year = 2026, month = 11, day = 3\<rparr>"

text \<open>The body \<open>{"port": p, "voltage": 220.0, "current": 2.5, "power": w}\<close>.\<close>

definition sample :: "int \<Rightarrow> real \<Rightarrow> jval" where
  "sample p w =
     JObj [(''port'', JInt p), (''voltage'', JFloat 220), (''current'', JFloat 2.5),
           (''power'', JFloat w)]"

text \<open>A database that already holds today's and this month's bucket of every port.\<close>

definition daily_bucket :: "real \<Rightarrow> real \<Rightarrow> int \<Rightarrow> int \<Rightarrow> daily_row" where
  "daily_bucket e c m p =
     \<lparr>dc_date = a_day, dc_port = p, dc_energy_kwh = e, dc_cost_bdt = c, dc_runtime_minutes = m\<rparr>"

definition monthly_bucket :: "real \<Rightarrow> real \<Rightarrow> int \<Rightarrow> monthly_row" where
  "monthly_bucket e c p =
     \<lparr>mc_year = 2026, mc_month = 11, mc_port = p, mc_energy_kwh = e, mc_cost_bdt = c\<rparr>"

definition seeded_db :: "real \<Rightarrow> real \<Rightarrow> int \<Rightarrow> app_state" where
  "seeded_db e c m =
     fresh_db\<lparr>daily_tbl := map (daily_bucket e c m) [1, 2, 3, 4],
              monthly_tbl := map (monthly_bucket e c) [1, 2, 3, 4]\<rparr>"

section \<open>Properties\<close>

subsection \<open>Helper facts\<close>

lemma str_nat_digit: "n < 10 \<Longrightarrow> str_nat n = [''0123456789'' ! n]"
  by (simp add: str_nat.simps)

lemma port_key_simps:
  "port_key 1 = ''port1''" "port_key 2 = ''port2''" "port_key 3 = ''port3''"
  "port_key 4 = ''port4''"
  by (simp_all add: port_key_def str_int_def str_nat_digit)

lemma find_append:
  "find P (xs @ ys) = (case find P xs of None \<Rightarrow> find P ys | Some x \<Rightarrow> Some x)"
  by (induction xs) auto

lemma find_filter_same:
  "find (\<lambda>r. rt_port r = p) (filter (\<lambda>r. rt_port r \<noteq> p) xs) = None"
  by (induction xs) auto

lemma find_filter_other:
  "q \<noteq> p \<Longrightarrow>
   find (\<lambda>r. rt_port r = q) (filter (\<lambda>r. rt_port r \<noteq> p) xs) = find (\<lambda>r. rt_port r = q) xs"
  by (induction xs) auto

lemma realtime_after_update_same:
  "realtime_entry (realtime_tbl (update_realtime_data p v c w s)) p =
     (port_key p, reading_view v c w)"
  by (simp add: realtime_entry_def update_realtime_data_def find_append find_filter_same
      reading_view_def)

lemma realtime_after_update_other:
  "q \<noteq> p \<Longrightarrow>
   realtime_entry (realtime_tbl (update_realtime_data p v c w s)) q =
     realtime_entry (realtime_tbl s) q"
  by (simp add: realtime_entry_def update_realtime_data_def find_append find_filter_other
      Let_def split: option.splits)

lemma update_daily_frame:
  "update_daily_consumption L now p w s = Inr s' \<Longrightarrow>
   realtime_tbl s' = realtime_tbl s \<and> settings_tbl s' = settings_tbl s \<and>
   monthly_tbl s' = monthly_tbl s \<and> emitted s' = emitted s"
  by (auto simp: update_daily_consumption_def Let_def split: sum.splits if_splits option.splits)

lemma update_monthly_frame:
  "update_monthly_consumption now p e c s = Inr s' \<Longrightarrow>
   realtime_tbl s' = realtime_tbl s \<and> settings_tbl s' = settings_tbl s \<and>
   daily_tbl s' = daily_tbl s \<and> emitted s' = emitted s"
  by (auto simp: update_monthly_consumption_def Let_def split: sum.splits if_splits option.splits)

lemma receive_realtime:
  assumes "map_of d ''port'' = Some pv" and "map_of d ''voltage'' = Some vv"
    and "map_of d ''current'' = Some cv" and "map_of d ''power'' = Some wv"
    and "py_int L pv = Inr p" and "1 \<le> p" and "p \<le> 4"
    and "py_float L vv = Inr v" and "py_float L cv = Inr c" and "py_float L wv = Inr w"
  shows "realtime_tbl (snd (receive_esp_data L now (JObj d) s)) =
           realtime_tbl (update_realtime_data p v c w s)
         \<and> settings_tbl (snd (receive_esp_data L now (JObj d) s)) = settings_tbl s"
  using assms
  by (auto simp: receive_esp_data_def required_fields_def Let_def update_realtime_data_def
      dest!: update_daily_frame update_monthly_frame split: sum.splits)

lemma rate_settings:
  "settings_tbl s' = settings_tbl s \<Longrightarrow> get_electricity_rate L s' = get_electricity_rate L s"
  by (simp add: get_electricity_rate_def)

lemma dashboard_ok:
  "get_electricity_rate L s = Inr rate \<Longrightarrow>
   get_dashboard_data L now s =
     Inr (JObj [(''realtime'', JObj (realtime_section s)), (''today'', JObj (today_section now s)),
                (''monthly'', JObj (monthly_section now s)), (''electricity_rate'', JFloat rate)])"
  by (simp add: get_dashboard_data_def)

lemma realtime_lookup:
  "q \<in> {1, 2, 3, 4} \<Longrightarrow>
   map_of (realtime_section s) (port_key q) = Some (snd (realtime_entry (realtime_tbl s) q))"
  by (auto simp: realtime_section_def realtime_entry_def port_key_simps)

lemma rate_fresh: "get_electricity_rate decimal_lib fresh_db = Inr 8"
  by (simp add: get_electricity_rate_def fresh_db_def decimal_lib_def dec_float_unsigned_def
      digit_of_def)

lemma rate_seeded: "get_electricity_rate decimal_lib (seeded_db e c m) = Inr 8"
  by (simp add: get_electricity_rate_def seeded_db_def fresh_db_def decimal_lib_def
      dec_float_unsigned_def digit_of_def)

lemma round2_of_int: "round2 (of_int n) = of_int n"
proof -
  have "(of_int n :: real) * 100 = of_int (n * 100)" by simp
  then have "round_half_even (of_int n * 100) = n * 100"
    unfolding round_half_even_def by (simp only: floor_of_int Let_def) simp
  then show ?thesis by (simp add: round2_def)
qed

lemma num_of_rounded: "num_of (to_json (py_round2 n)) = round2 (value_of n)"
  by (cases n) (simp_all add: round2_of_int)

lemma today_fold_keys:
  "map fst (today_data (fold (today_step d rows) ps acc)) = map fst (today_data acc) @ map port_key ps"
  by (induction ps arbitrary: acc) (auto simp: today_step_def split: option.splits)

lemma today_fold_energy:
  "value_of (total_today_energy (fold (today_step d rows) ps acc)) =
     value_of (total_today_energy acc)
     + (\<Sum>p\<leftarrow>ps. stored dc_energy_kwh (find (\<lambda>r. dc_date r = d \<and> dc_port r = p) rows))"
proof (induction ps arbitrary: acc)
  case Nil
  then show ?case by simp
next
  case (Cons p ps)
  have "value_of (total_today_energy (today_step d rows p acc)) =
          value_of (total_today_energy acc) + stored dc_energy_kwh (find (\<lambda>r. dc_date r = d \<and> dc_port r = p) rows)"
    by (cases "total_today_energy acc") (simp_all add: today_step_def stored_def split: option.splits)
  then show ?case using Cons.IH [of "today_step d rows p acc"] by simp
qed

lemma today_fold_cost:
  "value_of (total_today_cost (fold (today_step d rows) ps acc)) =
     value_of (total_today_cost acc)
     + (\<Sum>p\<leftarrow>ps. stored dc_cost_bdt (find (\<lambda>r. dc_date r = d \<and> dc_port r = p) rows))"
proof (induction ps arbitrary: acc)
  case Nil
  then show ?case by simp
next
  case (Cons p ps)
  have "value_of (total_today_cost (today_step d rows p acc)) =
          value_of (total_today_cost acc) + stored dc_cost_bdt (find (\<lambda>r. dc_date r = d \<and> dc_port r = p) rows)"
    by (cases "total_today_cost acc") (simp_all add: today_step_def stored_def split: option.splits)
  then show ?case using Cons.IH [of "today_step d rows p acc"] by simp
qed

lemma map_of_total:
  "''total'' \<notin> set (map fst xs) \<Longrightarrow> map_of (xs @ [(''total'', v)]) ''total'' = Some v"
  by (simp add: map_of_append map_add_def map_of_eq_None_iff [symmetric] del: map_of_eq_None_iff)

lemma today_total:
  "\<exists>acc :: today_acc. map_of (today_section now s) ''total'' =
     Some (JObj [(''energy'', to_json (py_round2 (total_today_energy acc))),
                 (''cost'', to_json (py_round2 (total_today_cost acc))),
                 (''runtime'', JStr (format_runtime (total_today_runtime acc)))])
   \<and> value_of (total_today_energy acc) = (\<Sum>p\<leftarrow>[1, 2, 3, 4]. stored dc_energy_kwh (daily_of now s p))
   \<and> value_of (total_today_cost acc) = (\<Sum>p\<leftarrow>[1, 2, 3, 4]. stored dc_cost_bdt (daily_of now s p))"
proof -
  define acc where "acc = fold (today_step now (daily_tbl s)) [1, 2, 3, 4]
      \<lparr>today_data = [], total_today_energy = PInt 0, total_today_cost = PInt 0,
       total_today_runtime = 0\<rparr>"
  have keys: "''total'' \<notin> set (map fst (today_data acc))"
    unfolding acc_def today_fold_keys by (simp add: port_key_simps)
  have a: "map_of (today_section now s) ''total'' =
     Some (JObj [(''energy'', to_json (py_round2 (total_today_energy acc))),
                 (''cost'', to_json (py_round2 (total_today_cost acc))),
                 (''runtime'', JStr (format_runtime (total_today_runtime acc)))])"
    unfolding today_section_def Let_def acc_def [symmetric] by (rule map_of_total [OF keys])
  have b: "value_of (total_today_energy acc) = (\<Sum>p\<leftarrow>[1, 2, 3, 4]. stored dc_energy_kwh (daily_of now s p))"
    unfolding acc_def today_fold_energy daily_of_def by simp
  have c: "value_of (total_today_cost acc) = (\<Sum>p\<leftarrow>[1, 2, 3, 4]. stored dc_cost_bdt (daily_of now s p))"
    unfolding acc_def today_fold_cost daily_of_def by simp
  show ?thesis using a b c by blast
qed

lemma today_total_shown:
  "map_option num_of (jpath (JObj (today_section now s)) [''total'', ''energy'']) =
     Some (round2 (\<Sum>p\<leftarrow>[1, 2, 3, 4]. stored dc_energy_kwh (daily_of now s p)))
   \<and> map_option num_of (jpath (JObj (today_section now s)) [''total'', ''cost'']) =
     Some (round2 (\<Sum>p\<leftarrow>[1, 2, 3, 4]. stored dc_cost_bdt (daily_of now s p)))"
proof -
  obtain acc :: today_acc where
    a: "map_of (today_section now s) ''total'' =
     Some (JObj [(''energy'', to_json (py_round2 (total_today_energy acc))),
                 (''cost'', to_json (py_round2 (total_today_cost acc))),
                 (''runtime'', JStr (format_runtime (total_today_runtime acc)))])"
    and b: "value_of (total_today_energy acc) = (\<Sum>p\<leftarrow>[1, 2, 3, 4]. stored dc_energy_kwh (daily_of now s p))"
    and c: "value_of (total_today_cost acc) = (\<Sum>p\<leftarrow>[1, 2, 3, 4]. stored dc_cost_bdt (daily_of now s p))"
    using today_total by blast
  show ?thesis
    by (simp add: a num_of_rounded b c del: sum_list.Cons)
qed

lemma month_fold_keys:
  "map fst (monthly_data (fold (month_step y m rows) ps acc)) = map fst (monthly_data acc) @ map port_key ps"
  by (induction ps arbitrary: acc) (auto simp: month_step_def split: option.splits)

lemma month_fold_energy:
  "value_of (total_month_energy (fold (month_step y m rows) ps acc)) =
     value_of (total_month_energy acc)
     + (\<Sum>p\<leftarrow>ps. stored mc_energy_kwh
          (find (\<lambda>r. mc_year r = y \<and> mc_month r = m \<and> mc_port r = p) rows))"
proof (induction ps arbitrary: acc)
  case Nil
  then show ?case by simp
next
  case (Cons p ps)
  have "value_of (total_month_energy (month_step y m rows p acc)) =
          value_of (total_month_energy acc)
          + stored mc_energy_kwh (find (\<lambda>r. mc_year r = y \<and> mc_month r = m \<and> mc_port r = p) rows)"
    by (cases "total_month_energy acc") (simp_all add: month_step_def stored_def split: option.splits)
  then show ?case using Cons.IH [of "month_step y m rows p acc"] by simp
qed

lemma month_fold_cost:
  "value_of (total_month_cost (fold (month_step y m rows) ps acc)) =
     value_of (total_month_cost acc)
     + (\<Sum>p\<leftarrow>ps. stored mc_cost_bdt
          (find (\<lambda>r. mc_year r = y \<and> mc_month r = m \<and> mc_port r = p) rows))"
proof (induction ps arbitrary: acc)
  case Nil
  then show ?case by simp
next
  case (Cons p ps)
  have "value_of (total_month_cost (month_step y m rows p acc)) =
          value_of (total_month_cost acc)
          + stored mc_cost_bdt (find (\<lambda>r. mc_year r = y \<and> mc_month r = m \<and> mc_port r = p) rows)"
    by (cases "total_month_cost acc") (simp_all add: month_step_def stored_def split: option.splits)
  then show ?case using Cons.IH [of "month_step y m rows p acc"] by simp
qed

lemma month_total:
  "\<exists>acc :: month_acc. map_of (monthly_section now s) ''total'' =
     Some (JObj [(''energy'', to_json (py_round2 (total_month_energy acc))),
                 (''cost'', to_json (py_round2 (total_month_cost acc))),
                 (''days'', JInt (day now))])
   \<and> value_of (total_month_energy acc) = (\<Sum>p\<leftarrow>[1, 2, 3, 4]. stored mc_energy_kwh (monthly_of now s p))
   \<and> value_of (total_month_cost acc) = (\<Sum>p\<leftarrow>[1, 2, 3, 4]. stored mc_cost_bdt (monthly_of now s p))"
proof -
  define acc where "acc = fold (month_step (year now) (month now) (monthly_tbl s)) [1, 2, 3, 4]
      \<lparr>monthly_data = [], total_month_energy = PInt 0, total_month_cost = PInt 0\<rparr>"
  have keys: "''total'' \<notin> set (map fst (monthly_data acc))"
    unfolding acc_def month_fold_keys by (simp add: port_key_simps)
  have a: "map_of (monthly_section now s) ''total'' =
     Some (JObj [(''energy'', to_json (py_round2 (total_month_energy acc))),
                 (''cost'', to_json (py_round2 (total_month_cost acc))),
                 (''days'', JInt (day now))])"
    unfolding monthly_section_def Let_def acc_def [symmetric] by (rule map_of_total [OF keys])
  have b: "value_of (total_month_energy acc) = (\<Sum>p\<leftarrow>[1, 2, 3, 4]. stored mc_energy_kwh (monthly_of now s p))"
    unfolding acc_def month_fold_energy monthly_of_def by simp
  have c: "value_of (total_month_cost acc) = (\<Sum>p\<leftarrow>[1, 2, 3, 4]. stored mc_cost_bdt (monthly_of now s p))"
    unfolding acc_def month_fold_cost monthly_of_def by simp
  show ?thesis using a b c by blast
qed

lemma month_total_shown:
  "map_option num_of (jpath (JObj (monthly_section now s)) [''total'', ''energy'']) =
     Some (round2 (\<Sum>p\<leftarrow>[1, 2, 3, 4]. stored mc_energy_kwh (monthly_of now s p)))
   \<and> map_option num_of (jpath (JObj (monthly_section now s)) [''total'', ''cost'']) =
     Some (round2 (\<Sum>p\<leftarrow>[1, 2, 3, 4]. stored mc_cost_bdt (monthly_of now s p)))
   \<and> jpath (JObj (monthly_section now s)) [''total'', ''days''] = Some (JInt (day now))"
proof -
  obtain acc :: month_acc where
    a: "map_of (monthly_section now s) ''total'' =
     Some (JObj [(''energy'', to_json (py_round2 (total_month_energy acc))),
                 (''cost'', to_json (py_round2 (total_month_cost acc))),
                 (''days'', JInt (day now))])"
    and b: "value_of (total_month_energy acc) = (\<Sum>p\<leftarrow>[1, 2, 3, 4]. stored mc_energy_kwh (monthly_of now s p))"
    and c: "value_of (total_month_cost acc) = (\<Sum>p\<leftarrow>[1, 2, 3, 4]. stored mc_cost_bdt (monthly_of now s p))"
    using month_total by blast
  show ?thesis
    by (simp add: a num_of_rounded b c del: sum_list.Cons)
qed

lemma find_today_after_delete:
  "find (\<lambda>r. dc_date r = d \<and> dc_port r = p) (filter (\<lambda>r. dc_date r \<noteq> d) xs) = None"
  by (induction xs) auto

lemma today_section_after_delete:
  "today_section now (s\<lparr>daily_tbl := filter (\<lambda>r. dc_date r \<noteq> now) (daily_tbl s)\<rparr>) =
     [(''port1'', JObj [(''energy'', JInt 0), (''cost'', JInt 0), (''runtime'', JStr ''0h 0m'')]),
      (''port2'', JObj [(''energy'', JInt 0), (''cost'', JInt 0), (''runtime'', JStr ''0h 0m'')]),
      (''port3'', JObj [(''energy'', JInt 0), (''cost'', JInt 0), (''runtime'', JStr ''0h 0m'')]),
      (''port4'', JObj [(''energy'', JInt 0), (''cost'', JInt 0), (''runtime'', JStr ''0h 0m'')]),
      (''total'', JObj [(''energy'', JInt 0), (''cost'', JInt 0), (''runtime'', JStr ''0h 0m'')])]"
  by (simp add: today_section_def today_step_def find_today_after_delete port_key_simps
      format_runtime_def str_int_def str_nat_digit)

lemma reset_state:
  "daily_tbl (snd (reset_daily_data L now s)) = filter (\<lambda>r. dc_date r \<noteq> now) (daily_tbl s)
   \<and> monthly_tbl (snd (reset_daily_data L now s)) = monthly_tbl s
   \<and> realtime_tbl (snd (reset_daily_data L now s)) = realtime_tbl s
   \<and> settings_tbl (snd (reset_daily_data L now s)) = settings_tbl s"
  by (simp add: reset_daily_data_def Let_def split: sum.splits)

lemma today_section_cong: "daily_tbl s' = daily_tbl s \<Longrightarrow> today_section now s' = today_section now s"
  by (simp add: today_section_def)

lemma monthly_section_cong: "monthly_tbl s' = monthly_tbl s \<Longrightarrow> monthly_section now s' = monthly_section now s"
  by (simp add: monthly_section_def)

lemma dashboard_view:
  assumes "get_dashboard_data L now s = Inr view"
  shows "jpath view (''today'' # ks) = jpath (JObj (today_section now s)) ks"
    and "jpath view (''monthly'' # ks) = jpath (JObj (monthly_section now s)) ks"
    and "jpath view (''realtime'' # ks) = jpath (JObj (realtime_section s)) ks"
  using assms by (auto simp: get_dashboard_data_def split: sum.splits)

lemma days_in_month_a_day: "days_in_month_expr a_day = \<lparr>year = 2026, month = 11, day = 30\<rparr>"
  by (simp add: days_in_month_expr_def a_day_def eval_nat_numeral next_day_def prev_day_def month_length_def is_leap_def)

lemma seeded_today:
  "today_section a_day (seeded_db (1 / 250) (4 / 125) 0) =
     [(''port1'', JObj [(''energy'', JFloat 0), (''cost'', JFloat 0.03), (''runtime'', JStr ''0h 0m'')]),
      (''port2'', JObj [(''energy'', JFloat 0), (''cost'', JFloat 0.03), (''runtime'', JStr ''0h 0m'')]),
      (''port3'', JObj [(''energy'', JFloat 0), (''cost'', JFloat 0.03), (''runtime'', JStr ''0h 0m'')]),
      (''port4'', JObj [(''energy'', JFloat 0), (''cost'', JFloat 0.03), (''runtime'', JStr ''0h 0m'')]),
      (''total'', JObj [(''energy'', JFloat 0.02), (''cost'', JFloat 0.13), (''runtime'', JStr ''0h 0m'')])]"
  by (simp add: today_section_def today_step_def seeded_db_def fresh_db_def daily_bucket_def
      port_key_simps format_runtime_def str_int_def str_nat_digit round2_def round_half_even_def)

lemma seeded_sums:
  "(\<Sum>p\<leftarrow>[1, 2, 3, 4]. stored dc_energy_kwh (daily_of a_day (seeded_db e c m) p)) = 4 * e"
  "(\<Sum>p\<leftarrow>[1, 2, 3, 4]. stored dc_cost_bdt (daily_of a_day (seeded_db e c m) p)) = 4 * c"
  "(\<Sum>p\<leftarrow>[1, 2, 3, 4]. stored mc_energy_kwh (monthly_of a_day (seeded_db e c m) p)) = 4 * e"
  "(\<Sum>p\<leftarrow>[1, 2, 3, 4]. stored mc_cost_bdt (monthly_of a_day (seeded_db e c m) p)) = 4 * c"
  by (simp_all add: stored_def daily_of_def monthly_of_def seeded_db_def daily_bucket_def
      monthly_bucket_def a_day_def)

lemma find_write_back_same: "find P xs = Some x \<Longrightarrow> P r \<Longrightarrow> find P (write_back P r xs) = Some r"
  by (induction xs) (auto split: if_splits)

lemma length_write_back: "length (write_back P r xs) = length xs"
  by (induction xs) auto

lemma find_write_back_other:
  "\<not> Q r \<Longrightarrow> (\<And>x. P x \<Longrightarrow> \<not> Q x) \<Longrightarrow> find Q (write_back P r xs) = find Q xs"
  by (induction xs) auto

lemma energy_one_minute: "calculate_energy_kwh w 1 = w / 60000"
  by (simp add: calculate_energy_kwh_def)

lemma update_daily_existing:
  assumes "daily_of now s port = Some r" and "get_electricity_rate L s = Inr rate"
  shows "update_daily_consumption L now port w s =
     Inr (s\<lparr>daily_tbl := write_back (\<lambda>r. dc_date r = now \<and> dc_port r = port)
            \<lparr>dc_date = now, dc_port = port,
             dc_energy_kwh = dc_energy_kwh r + w / 60000,
             dc_cost_bdt = dc_cost_bdt r + w / 60000 * rate,
             dc_runtime_minutes = dc_runtime_minutes r + (if w > 0 then 1 else 0)\<rparr>
            (daily_tbl s)\<rparr>)"
proof -
  from assms(1) have k: "dc_date r = now" "dc_port r = port"
    by (auto simp: daily_of_def find_Some_iff)
  show ?thesis
    using assms k
    by (simp add: update_daily_consumption_def daily_of_def energy_one_minute daily_loaded_def
        daily_flush_def Let_def)
qed

lemma update_daily_missing:
  assumes "daily_of now s port = None" and "get_electricity_rate L s = Inr rate"
  shows "update_daily_consumption L now port w s = Inl TypeError"
  using assms
  by (simp add: update_daily_consumption_def daily_of_def DailyConsumption_def Let_def)

lemma update_monthly_existing:
  assumes "monthly_of now s port = Some m"
  shows "update_monthly_consumption now port e c s =
     Inr (s\<lparr>monthly_tbl := write_back
            (\<lambda>r. mc_year r = year now \<and> mc_month r = month now \<and> mc_port r = port)
            \<lparr>mc_year = year now, mc_month = month now, mc_port = port,
             mc_energy_kwh = mc_energy_kwh m + e, mc_cost_bdt = mc_cost_bdt m + c\<rparr>
            (monthly_tbl s)\<rparr>)"
proof -
  from assms have k: "mc_year m = year now" "mc_month m = month now" "mc_port m = port"
    by (auto simp: monthly_of_def find_Some_iff)
  show ?thesis
    using assms k
    by (simp add: update_monthly_consumption_def monthly_of_def monthly_loaded_def
        monthly_flush_def Let_def)
qed

lemma update_monthly_missing:
  assumes "monthly_of now s port = None"
  shows "update_monthly_consumption now port e c s = Inl TypeError"
  using assms
  by (simp add: update_monthly_consumption_def monthly_of_def MonthlyConsumption_def Let_def)

lemma update_daily_rate:
  "get_electricity_rate L s = Inl e \<Longrightarrow> update_daily_consumption L now port w s = Inl e"
  by (simp add: update_daily_consumption_def Let_def)

lemma update_daily_never_inserts:
  assumes "daily_of now s port = None"
  shows "\<exists>e. update_daily_consumption L now port w s = Inl e"
proof (cases "get_electricity_rate L s")
  case (Inl e)
  then show ?thesis using update_daily_rate by blast
next
  case (Inr rate)
  then show ?thesis using update_daily_missing [OF assms] by blast
qed

lemma receive_valid:
  assumes "map_of d ''port'' = Some pv" and "map_of d ''voltage'' = Some vv"
    and "map_of d ''current'' = Some cv" and "map_of d ''power'' = Some wv"
    and "py_int L pv = Inr p" and "1 \<le> p" and "p \<le> 4"
    and "py_float L vv = Inr v" and "py_float L cv = Inr c" and "py_float L wv = Inr w"
  shows "receive_esp_data L now (JObj d) s =
    (let s1 = update_realtime_data p v c w s
     in case update_daily_consumption L now p w s1 of
          Inl e \<Rightarrow> (Failed e, s1)
        | Inr s2 \<Rightarrow>
           (case get_electricity_rate L s2 of
              Inl e \<Rightarrow> (Failed e, s2)
            | Inr rate \<Rightarrow>
               (case update_monthly_consumption now p (w / 60000) (w / 60000 * rate) s2 of
                  Inl e \<Rightarrow> (Failed e, s2)
                | Inr s3 \<Rightarrow>
                   (case get_dashboard_data L now s3 of
                      Inl e \<Rightarrow> (Failed e, s3)
                    | Inr view \<Rightarrow> (Success, s3\<lparr>emitted := emitted s3 @ [view]\<rparr>)))))"
  using assms
  by (simp add: receive_esp_data_def required_fields_def energy_one_minute Let_def
      split: sum.splits)

lemma daily_of_realtime [simp]: "daily_of now (update_realtime_data p v c w s) q = daily_of now s q"
  by (simp add: daily_of_def update_realtime_data_def Let_def)

lemma monthly_of_realtime [simp]: "monthly_of now (update_realtime_data p v c w s) q = monthly_of now s q"
  by (simp add: monthly_of_def update_realtime_data_def Let_def)

lemma rate_realtime [simp]: "get_electricity_rate L (update_realtime_data p v c w s) = get_electricity_rate L s"
  by (simp add: get_electricity_rate_def update_realtime_data_def Let_def)

lemma receive_existing:
  assumes "map_of d ''port'' = Some pv" and "map_of d ''voltage'' = Some vv"
    and "map_of d ''current'' = Some cv" and "map_of d ''power'' = Some wv"
    and "py_int L pv = Inr p" and "1 \<le> p" and "p \<le> 4"
    and "py_float L vv = Inr v" and "py_float L cv = Inr c" and "py_float L wv = Inr w"
    and "get_electricity_rate L s = Inr rate"
    and "daily_of now s p = Some r" and "monthly_of now s p = Some m"
  shows "fst (receive_esp_data L now (JObj d) s) = Success"
    and "daily_tbl (snd (receive_esp_data L now (JObj d) s)) =
           write_back (\<lambda>r. dc_date r = now \<and> dc_port r = p)
             \<lparr>dc_date = now, dc_port = p,
              dc_energy_kwh = dc_energy_kwh r + w / 60000,
              dc_cost_bdt = dc_cost_bdt r + w / 60000 * rate,
              dc_runtime_minutes = dc_runtime_minutes r + (if w > 0 then 1 else 0)\<rparr>
             (daily_tbl s)"
    and "monthly_tbl (snd (receive_esp_data L now (JObj d) s)) =
           write_back (\<lambda>r. mc_year r = year now \<and> mc_month r = month now \<and> mc_port r = p)
             \<lparr>mc_year = year now, mc_month = month now, mc_port = p,
              mc_energy_kwh = mc_energy_kwh m + w / 60000,
              mc_cost_bdt = mc_cost_bdt m + w / 60000 * rate\<rparr>
             (monthly_tbl s)"
proof -
  define s1 where "s1 = update_realtime_data p v c w s"
  define s2 where "s2 = s1\<lparr>daily_tbl := write_back (\<lambda>r. dc_date r = now \<and> dc_port r = p)
             \<lparr>dc_date = now, dc_port = p,
              dc_energy_kwh = dc_energy_kwh r + w / 60000,
              dc_cost_bdt = dc_cost_bdt r + w / 60000 * rate,
              dc_runtime_minutes = dc_runtime_minutes r + (if w > 0 then 1 else 0)\<rparr>
             (daily_tbl s1)\<rparr>"
  define s3 where "s3 = s2\<lparr>monthly_tbl :=
             write_back (\<lambda>r. mc_year r = year now \<and> mc_month r = month now \<and> mc_port r = p)
             \<lparr>mc_year = year now, mc_month = month now, mc_port = p,
              mc_energy_kwh = mc_energy_kwh m + w / 60000,
              mc_cost_bdt = mc_cost_bdt m + w / 60000 * rate\<rparr>
             (monthly_tbl s2)\<rparr>"
  have d1: "update_daily_consumption L now p w s1 = Inr s2"
    unfolding s2_def by (rule update_daily_existing) (simp_all add: s1_def assms)
  have r2: "get_electricity_rate L s2 = Inr rate"
    using assms(11)
    by (simp add: get_electricity_rate_def s2_def s1_def update_realtime_data_def Let_def)
  have m2: "monthly_of now s2 p = Some m"
    using assms(13) by (simp add: monthly_of_def s2_def s1_def update_realtime_data_def Let_def)
  have m3: "update_monthly_consumption now p (w / 60000) (w / 60000 * rate) s2 = Inr s3"
    unfolding s3_def by (rule update_monthly_existing [OF m2])
  have r3: "get_electricity_rate L s3 = Inr rate"
    using r2 by (simp add: get_electricity_rate_def s3_def)
  obtain view where v: "get_dashboard_data L now s3 = Inr view"
    using dashboard_ok [OF r3] by blast
  have "receive_esp_data L now (JObj d) s = (Success, s3\<lparr>emitted := emitted s3 @ [view]\<rparr>)"
    unfolding receive_valid [OF assms(1-10)] Let_def s1_def [symmetric]
    using m3 by (simp add: d1 r2 v)
  then show "fst (receive_esp_data L now (JObj d) s) = Success"
    and "daily_tbl (snd (receive_esp_data L now (JObj d) s)) =
           write_back (\<lambda>r. dc_date r = now \<and> dc_port r = p)
             \<lparr>dc_date = now, dc_port = p,
              dc_energy_kwh = dc_energy_kwh r + w / 60000,
              dc_cost_bdt = dc_cost_bdt r + w / 60000 * rate,
              dc_runtime_minutes = dc_runtime_minutes r + (if w > 0 then 1 else 0)\<rparr>
             (daily_tbl s)"
    and "monthly_tbl (snd (receive_esp_data L now (JObj d) s)) =
           write_back (\<lambda>r. mc_year r = year now \<and> mc_month r = month now \<and> mc_port r = p)
             \<lparr>mc_year = year now, mc_month = month now, mc_port = p,
              mc_energy_kwh = mc_energy_kwh m + w / 60000,
              mc_cost_bdt = mc_cost_bdt m + w / 60000 * rate\<rparr>
             (monthly_tbl s)"
    by (simp_all add: s3_def s2_def s1_def update_realtime_data_def Let_def)
qed

lemma receive_existing_buckets:
  assumes "map_of d ''port'' = Some pv" and "map_of d ''voltage'' = Some vv"
    and "map_of d ''current'' = Some cv" and "map_of d ''power'' = Some wv"
    and "py_int L pv = Inr p" and "1 \<le> p" and "p \<le> 4"
    and "py_float L vv = Inr v" and "py_float L cv = Inr c" and "py_float L wv = Inr w"
    and "get_electricity_rate L s = Inr rate"
    and "daily_of now s p = Some r" and "monthly_of now s p = Some m"
  shows "daily_of now (snd (receive_esp_data L now (JObj d) s)) p =
           Some \<lparr>dc_date = now, dc_port = p,
              dc_energy_kwh = dc_energy_kwh r + w / 60000,
              dc_cost_bdt = dc_cost_bdt r + w / 60000 * rate,
              dc_runtime_minutes = dc_runtime_minutes r + (if w > 0 then 1 else 0)\<rparr>"
    and "monthly_of now (snd (receive_esp_data L now (JObj d) s)) p =
           Some \<lparr>mc_year = year now, mc_month = month now, mc_port = p,
              mc_energy_kwh = mc_energy_kwh m + w / 60000,
              mc_cost_bdt = mc_cost_bdt m + w / 60000 * rate\<rparr>"
    and "d' \<noteq> now \<or> q \<noteq> p \<Longrightarrow>
           daily_of d' (snd (receive_esp_data L now (JObj d) s)) q = daily_of d' s q"
    and "year n' \<noteq> year now \<or> month n' \<noteq> month now \<or> q \<noteq> p \<Longrightarrow>
           monthly_of n' (snd (receive_esp_data L now (JObj d) s)) q = monthly_of n' s q"
proof -
  note tbl = receive_existing(2,3) [OF assms]
  show "daily_of now (snd (receive_esp_data L now (JObj d) s)) p =
           Some \<lparr>dc_date = now, dc_port = p,
              dc_energy_kwh = dc_energy_kwh r + w / 60000,
              dc_cost_bdt = dc_cost_bdt r + w / 60000 * rate,
              dc_runtime_minutes = dc_runtime_minutes r + (if w > 0 then 1 else 0)\<rparr>"
    unfolding daily_of_def tbl
    by (rule find_write_back_same [OF assms(12) [unfolded daily_of_def]]) simp
  show "monthly_of now (snd (receive_esp_data L now (JObj d) s)) p =
           Some \<lparr>mc_year = year now, mc_month = month now, mc_port = p,
              mc_energy_kwh = mc_energy_kwh m + w / 60000,
              mc_cost_bdt = mc_cost_bdt m + w / 60000 * rate\<rparr>"
    unfolding monthly_of_def tbl
    by (rule find_write_back_same [OF assms(13) [unfolded monthly_of_def]]) simp
  show "daily_of d' (snd (receive_esp_data L now (JObj d) s)) q = daily_of d' s q"
    if "d' \<noteq> now \<or> q \<noteq> p"
    unfolding daily_of_def tbl
    by (rule find_write_back_other) (use that in auto)
  show "monthly_of n' (snd (receive_esp_data L now (JObj d) s)) q = monthly_of n' s q"
    if "year n' \<noteq> year now \<or> month n' \<noteq> month now \<or> q \<noteq> p"
    unfolding monthly_of_def tbl
    by (rule find_write_back_other) (use that in auto)
qed

lemma seeded_buckets:
  "daily_of a_day (seeded_db e c m) 1 = Some (daily_bucket e c m 1)"
  "monthly_of a_day (seeded_db e c m) 1 = Some (monthly_bucket e c 1)"
  by (simp_all add: daily_of_def monthly_of_def seeded_db_def daily_bucket_def monthly_bucket_def
      a_day_def)

lemma sample_step:
  assumes "1 \<le> p" and "p \<le> 4"
    and "get_electricity_rate L s = Inr rate"
    and "daily_of now s p = Some r" and "monthly_of now s p = Some m"
  shows "fst (receive_esp_data L now (sample p w) s) = Success"
    and "daily_of now (snd (receive_esp_data L now (sample p w) s)) p =
           Some \<lparr>dc_date = now, dc_port = p,
              dc_energy_kwh = dc_energy_kwh r + w / 60000,
              dc_cost_bdt = dc_cost_bdt r + w / 60000 * rate,
              dc_runtime_minutes = dc_runtime_minutes r + (if w > 0 then 1 else 0)\<rparr>"
    and "monthly_of now (snd (receive_esp_data L now (sample p w) s)) p =
           Some \<lparr>mc_year = year now, mc_month = month now, mc_port = p,
              mc_energy_kwh = mc_energy_kwh m + w / 60000,
              mc_cost_bdt = mc_cost_bdt m + w / 60000 * rate\<rparr>"
    and "get_electricity_rate L (snd (receive_esp_data L now (sample p w) s)) = Inr rate"
proof -
  have f: "map_of [(''port'', JInt p), (''voltage'', JFloat 220), (''current'', JFloat 2.5),
             (''power'', JFloat w)] ''port'' = Some (JInt p)"
    "map_of [(''port'', JInt p), (''voltage'', JFloat 220), (''current'', JFloat 2.5),
             (''power'', JFloat w)] ''voltage'' = Some (JFloat 220)"
    "map_of [(''port'', JInt p), (''voltage'', JFloat 220), (''current'', JFloat 2.5),
             (''power'', JFloat w)] ''current'' = Some (JFloat 2.5)"
    "map_of [(''port'', JInt p), (''voltage'', JFloat 220), (''current'', JFloat 2.5),
             (''power'', JFloat w)] ''power'' = Some (JFloat w)"
    by simp_all
  have c: "py_int L (JInt p) = Inr p" "py_float L (JFloat 220) = Inr 220"
    "py_float L (JFloat 2.5) = Inr 2.5" "py_float L (JFloat w) = Inr w"
    by simp_all
  show "fst (receive_esp_data L now (sample p w) s) = Success"
    unfolding sample_def
    by (rule receive_existing(1) [OF f c(1) assms(1,2) c(2,3,4) assms(3,4,5)])
  show "daily_of now (snd (receive_esp_data L now (sample p w) s)) p =
           Some \<lparr>dc_date = now, dc_port = p,
              dc_energy_kwh = dc_energy_kwh r + w / 60000,
              dc_cost_bdt = dc_cost_bdt r + w / 60000 * rate,
              dc_runtime_minutes = dc_runtime_minutes r + (if w > 0 then 1 else 0)\<rparr>"
    unfolding sample_def
    by (rule receive_existing_buckets(1) [OF f c(1) assms(1,2) c(2,3,4) assms(3,4,5)])
  show "monthly_of now (snd (receive_esp_data L now (sample p w) s)) p =
           Some \<lparr>mc_year = year now, mc_month = month now, mc_port = p,
              mc_energy_kwh = mc_energy_kwh m + w / 60000,
              mc_cost_bdt = mc_cost_bdt m + w / 60000 * rate\<rparr>"
    unfolding sample_def
    by (rule receive_existing_buckets(2) [OF f c(1) assms(1,2) c(2,3,4) assms(3,4,5)])
  have st: "settings_tbl (snd (receive_esp_data L now (sample p w) s)) = settings_tbl s"
    unfolding sample_def
    using receive_realtime [OF f c(1) assms(1,2) c(2,3,4)] by simp
  show "get_electricity_rate L (snd (receive_esp_data L now (sample p w) s)) = Inr rate"
    unfolding rate_settings [OF st] by (rule assms(3))
qed

lemma two_samples_on_zero_buckets:
  "map_option dc_energy_kwh
     (daily_of a_day (snd (receive_esp_data decimal_lib a_day (sample 1 600) (seeded_db 0 0 0))) 1) = Some 0.01"
  "map_option dc_cost_bdt
     (daily_of a_day (snd (receive_esp_data decimal_lib a_day (sample 1 600) (seeded_db 0 0 0))) 1) = Some 0.08"
  "map_option mc_energy_kwh
     (monthly_of a_day (snd (receive_esp_data decimal_lib a_day (sample 1 600) (seeded_db 0 0 0))) 1) = Some 0.01"
  "map_option mc_cost_bdt
     (monthly_of a_day (snd (receive_esp_data decimal_lib a_day (sample 1 600) (seeded_db 0 0 0))) 1) = Some 0.08"
  "map_option dc_energy_kwh
     (daily_of a_day (snd (receive_esp_data decimal_lib a_day (sample 1 600)
        (snd (receive_esp_data decimal_lib a_day (sample 1 600) (seeded_db 0 0 0))))) 1) = Some 0.02"
  "map_option dc_cost_bdt
     (daily_of a_day (snd (receive_esp_data decimal_lib a_day (sample 1 600)
        (snd (receive_esp_data decimal_lib a_day (sample 1 600) (seeded_db 0 0 0))))) 1) = Some 0.16"
  "map_option mc_energy_kwh
     (monthly_of a_day (snd (receive_esp_data decimal_lib a_day (sample 1 600)
        (snd (receive_esp_data decimal_lib a_day (sample 1 600) (seeded_db 0 0 0))))) 1) = Some 0.02"
  "map_option mc_cost_bdt
     (monthly_of a_day (snd (receive_esp_data decimal_lib a_day (sample 1 600)
        (snd (receive_esp_data decimal_lib a_day (sample 1 600) (seeded_db 0 0 0))))) 1) = Some 0.16"
proof -
  have p: "(1::int) \<le> 1" "(1::int) \<le> 4" by simp_all
  define s1 where "s1 = snd (receive_esp_data decimal_lib a_day (sample 1 600) (seeded_db 0 0 0))"
  note a = sample_step(2,3,4) [OF p rate_seeded seeded_buckets, where w = 600, of 0 0 0, folded s1_def]
  note b = sample_step(2,3) [OF p a(3) a(1) a(2), where w = 600]
  show "map_option dc_energy_kwh
     (daily_of a_day (snd (receive_esp_data decimal_lib a_day (sample 1 600) (seeded_db 0 0 0))) 1) = Some 0.01"
    "map_option dc_cost_bdt
     (daily_of a_day (snd (receive_esp_data decimal_lib a_day (sample 1 600) (seeded_db 0 0 0))) 1) = Some 0.08"
    "map_option mc_energy_kwh
     (monthly_of a_day (snd (receive_esp_data decimal_lib a_day (sample 1 600) (seeded_db 0 0 0))) 1) = Some 0.01"
    "map_option mc_cost_bdt
     (monthly_of a_day (snd (receive_esp_data decimal_lib a_day (sample 1 600) (seeded_db 0 0 0))) 1) = Some 0.08"
    unfolding s1_def [symmetric]
    by (simp_all add: a daily_bucket_def monthly_bucket_def)
  show "map_option dc_energy_kwh
     (daily_of a_day (snd (receive_esp_data decimal_lib a_day (sample 1 600)
        (snd (receive_esp_data decimal_lib a_day (sample 1 600) (seeded_db 0 0 0))))) 1) = Some 0.02"
    "map_option dc_cost_bdt
     (daily_of a_day (snd (receive_esp_data decimal_lib a_day (sample 1 600)
        (snd (receive_esp_data decimal_lib a_day (sample 1 600) (seeded_db 0 0 0))))) 1) = Some 0.16"
    "map_option mc_energy_kwh
     (monthly_of a_day (snd (receive_esp_data decimal_lib a_day (sample 1 600)
        (snd (receive_esp_data decimal_lib a_day (sample 1 600) (seeded_db 0 0 0))))) 1) = Some 0.02"
    "map_option mc_cost_bdt
     (monthly_of a_day (snd (receive_esp_data decimal_lib a_day (sample 1 600)
        (snd (receive_esp_data decimal_lib a_day (sample 1 600) (seeded_db 0 0 0))))) 1) = Some 0.16"
    unfolding s1_def [symmetric]
    by (simp_all add: b daily_bucket_def monthly_bucket_def)
qed

lemma fresh_no_bucket: "daily_of a_day fresh_db 1 = None"
  by (simp add: daily_of_def fresh_db_def)

lemma receive_missing:
  assumes "map_of d ''port'' = None \<or> map_of d ''voltage'' = None \<or>
           map_of d ''current'' = None \<or> map_of d ''power'' = None"
  shows "receive_esp_data L now (JObj d) s = (Rejected ''Missing required fields'', s)"
  using assms
  by (auto simp: receive_esp_data_def required_fields_def split: sum.splits bool.splits)

lemma receive_bad_port:
  assumes "map_of d ''port'' = Some pv" and "map_of d ''voltage'' = Some vv"
    and "map_of d ''current'' = Some cv" and "map_of d ''power'' = Some wv"
    and "py_int L pv = Inl e"
  shows "receive_esp_data L now (JObj d) s = (Failed e, s)"
  using assms
  by (simp add: receive_esp_data_def required_fields_def)

lemma receive_bad_number:
  assumes "map_of d ''port'' = Some pv" and "map_of d ''voltage'' = Some vv"
    and "map_of d ''current'' = Some cv" and "map_of d ''power'' = Some wv"
    and "py_int L pv = Inr port" and "1 \<le> port" and "port \<le> 4"
    and "py_float L vv = Inl e \<or> py_float L cv = Inl e \<or> py_float L wv = Inl e"
  shows "\<exists>e'. receive_esp_data L now (JObj d) s = (Failed e', s)"
  using assms
  by (auto simp: receive_esp_data_def required_fields_def split: sum.splits)

lemma digits_val_append:
  "digits_val (xs @ ys) acc = (case digits_val xs acc of None \<Rightarrow> None | Some a \<Rightarrow> digits_val ys a)"
  by (induction xs arbitrary: acc) (auto split: option.splits)

lemma digit_of_nth: "d < 10 \<Longrightarrow> digit_of (''0123456789'' ! d) = Some d"
proof -
  assume "d < 10"
  then have "d \<in> {0, 1, 2, 3, 4, 5, 6, 7, 8, 9}" by auto
  then show ?thesis by (auto simp: digit_of_def)
qed

lemma digit_not_sign: "d < 10 \<Longrightarrow> ''0123456789'' ! d \<noteq> CHR ''-'' \<and> ''0123456789'' ! d \<noteq> CHR ''+''"
proof -
  assume "d < 10"
  then have "d \<in> {0, 1, 2, 3, 4, 5, 6, 7, 8, 9}" by auto
  then show ?thesis by auto
qed

lemma digits_val_str_nat: "digits_val (str_nat n) 0 = Some n"
proof (induction n rule: str_nat.induct)
  case (1 n)
  show ?case
  proof (cases "n < 10")
    case True
    then show ?thesis by (simp add: str_nat_digit digit_of_nth)
  next
    case False
    then have "str_nat n = str_nat (n div 10) @ [''0123456789'' ! (n mod 10)]"
      by (subst str_nat.simps) simp
    then show ?thesis
      using 1 False by (simp add: digits_val_append digit_of_nth)
  qed
qed

lemma str_nat_head: "\<exists>c cs. str_nat n = c # cs \<and> c \<noteq> CHR ''-'' \<and> c \<noteq> CHR ''+''"
proof (induction n rule: str_nat.induct)
  case (1 n)
  show ?case
  proof (cases "n < 10")
    case True
    then show ?thesis using digit_not_sign [OF True] by (simp add: str_nat_digit)
  next
    case False
    then have "str_nat n = str_nat (n div 10) @ [''0123456789'' ! (n mod 10)]"
      by (subst str_nat.simps) simp
    then show ?thesis using 1 False by auto
  qed
qed

lemma int_of_str_str_int: "int_of_str decimal_lib (str_int i) = Some i"
proof -
  obtain c cs where h: "str_nat (nat i) = c # cs" "c \<noteq> CHR ''-''" "c \<noteq> CHR ''+''"
    using str_nat_head by blast
  obtain c' cs' where h': "str_nat (nat (- i)) = c' # cs'"
    using str_nat_head by blast
  show ?thesis
  proof (cases "i < 0")
    case True
    have "dec_int_unsigned (str_nat (nat (- i))) = Some (int (nat (- i)))"
      using h' digits_val_str_nat [of "nat (- i)"] by (simp add: dec_int_unsigned_def)
    then show ?thesis using True by (simp add: str_int_def decimal_lib_def)
  next
    case False
    have "dec_int_unsigned (str_nat (nat i)) = Some (int (nat i))"
      using h digits_val_str_nat [of "nat i"] by (simp add: dec_int_unsigned_def)
    then have "signed dec_int_unsigned uminus (str_nat (nat i)) = Some (int (nat i))"
      using h by simp
    then show ?thesis using False by (simp add: str_int_def decimal_lib_def)
  qed
qed

lemma receive_daily_missing:
  assumes "map_of d ''port'' = Some pv" and "map_of d ''voltage'' = Some vv"
    and "map_of d ''current'' = Some cv" and "map_of d ''power'' = Some wv"
    and "py_int L pv = Inr p" and "1 \<le> p" and "p \<le> 4"
    and "py_float L vv = Inr v" and "py_float L cv = Inr c" and "py_float L wv = Inr w"
    and "get_electricity_rate L s = Inr rate"
    and "daily_of now s p = None"
  shows "receive_esp_data L now (JObj d) s = (Failed TypeError, update_realtime_data p v c w s)"
proof -
  define s1 where "s1 = update_realtime_data p v c w s"
  have d1: "update_daily_consumption L now p w s1 = Inl TypeError"
    by (rule update_daily_missing [where rate = rate]) (simp_all add: s1_def assms)
  show ?thesis
    unfolding receive_valid [OF assms(1-10)] Let_def s1_def [symmetric]
    by (simp add: d1)
qed

lemma receive_monthly_missing:
  assumes "map_of d ''port'' = Some pv" and "map_of d ''voltage'' = Some vv"
    and "map_of d ''current'' = Some cv" and "map_of d ''power'' = Some wv"
    and "py_int L pv = Inr p" and "1 \<le> p" and "p \<le> 4"
    and "py_float L vv = Inr v" and "py_float L cv = Inr c" and "py_float L wv = Inr w"
    and "get_electricity_rate L s = Inr rate"
    and "daily_of now s p = Some r" and "monthly_of now s p = None"
  shows "fst (receive_esp_data L now (JObj d) s) = Failed TypeError"
    and "monthly_tbl (snd (receive_esp_data L now (JObj d) s)) = monthly_tbl s"
    and "daily_of now (snd (receive_esp_data L now (JObj d) s)) p =
           Some \<lparr>dc_date = now, dc_port = p,
              dc_energy_kwh = dc_energy_kwh r + w / 60000,
              dc_cost_bdt = dc_cost_bdt r + w / 60000 * rate,
              dc_runtime_minutes = dc_runtime_minutes r + (if w > 0 then 1 else 0)\<rparr>"
proof -
  define s1 where "s1 = update_realtime_data p v c w s"
  define r' where "r' = \<lparr>dc_date = now, dc_port = p,
              dc_energy_kwh = dc_energy_kwh r + w / 60000,
              dc_cost_bdt = dc_cost_bdt r + w / 60000 * rate,
              dc_runtime_minutes = dc_runtime_minutes r + (if w > 0 then 1 else 0)\<rparr>"
  define s2 where
    "s2 = s1\<lparr>daily_tbl := write_back (\<lambda>r. dc_date r = now \<and> dc_port r = p) r' (daily_tbl s1)\<rparr>"
  have d1: "update_daily_consumption L now p w s1 = Inr s2"
    unfolding s2_def r'_def by (rule update_daily_existing) (simp_all add: s1_def assms)
  have r2: "get_electricity_rate L s2 = Inr rate"
    using assms(11)
    by (simp add: get_electricity_rate_def s2_def s1_def update_realtime_data_def Let_def)
  have m2: "monthly_of now s2 p = None"
    using assms(13) by (simp add: monthly_of_def s2_def s1_def update_realtime_data_def Let_def)
  have m3: "update_monthly_consumption now p e c' s2 = Inl TypeError" for e c'
    by (rule update_monthly_missing [OF m2])
  have res: "receive_esp_data L now (JObj d) s = (Failed TypeError, s2)"
    unfolding receive_valid [OF assms(1-10)] Let_def s1_def [symmetric]
    by (simp add: d1 r2 m3)
  have k: "dc_date r' = now \<and> dc_port r' = p" by (simp add: r'_def)
  have f: "daily_of now s2 p = Some r'"
    using find_write_back_same [OF assms(12) [unfolded daily_of_def], of r'] k
    by (simp add: daily_of_def s2_def s1_def update_realtime_data_def Let_def)
  show "fst (receive_esp_data L now (JObj d) s) = Failed TypeError"
    by (simp add: res)
  show "monthly_tbl (snd (receive_esp_data L now (JObj d) s)) = monthly_tbl s"
    by (simp add: res s2_def s1_def update_realtime_data_def Let_def)
  show "daily_of now (snd (receive_esp_data L now (JObj d) s)) p =
           Some \<lparr>dc_date = now, dc_port = p,
              dc_energy_kwh = dc_energy_kwh r + w / 60000,
              dc_cost_bdt = dc_cost_bdt r + w / 60000 * rate,
              dc_runtime_minutes = dc_runtime_minutes r + (if w > 0 then 1 else 0)\<rparr>"
    unfolding r'_def [symmetric] by (simp add: res f)
qed

lemma daily_only_db:
  "get_electricity_rate decimal_lib ((seeded_db e c m)\<lparr>monthly_tbl := []\<rparr>) = Inr 8"
  "daily_of a_day ((seeded_db e c m)\<lparr>monthly_tbl := []\<rparr>) 1 = Some (daily_bucket e c m 1)"
  "monthly_of a_day ((seeded_db e c m)\<lparr>monthly_tbl := []\<rparr>) 1 = None"
  by (simp_all add: get_electricity_rate_def daily_of_def monthly_of_def seeded_db_def fresh_db_def
      daily_bucket_def decimal_lib_def dec_float_unsigned_def digit_of_def)

subsection \<open>The claims\<close>


text \<open>
  C8. For every minute count \<open>m\<close> the runtime formatter returns the decimal numeral of
  \<open>m div 60\<close>, then \<open>h\<close> and a blank, then the decimal numeral of \<open>m mod 60\<close>, then
  \<open>m\<close>. The two numerals read back as \<open>m div 60\<close> and \<open>m mod 60\<close>, the minutes part is
  between 0 and 59 and the two parts recompose \<open>m\<close>. 125 minutes format as \<open>2h 5m\<close> and 0
  minutes as \<open>0h 0m\<close>.
\<close>

theorem format_runtime_div_mod:
  "format_runtime m = str_int (m div 60) @ ''h '' @ str_int (m mod 60) @ ''m''
   \<and> int_of_str decimal_lib (str_int (m div 60)) = Some (m div 60)
   \<and> int_of_str decimal_lib (str_int (m mod 60)) = Some (m mod 60)
   \<and> 0 \<le> m mod 60 \<and> m mod 60 < 60 \<and> (m div 60) * 60 + m mod 60 = m
   \<and> format_runtime 125 = ''2h 5m''
   \<and> format_runtime 0 = ''0h 0m''"
  by (simp add: format_runtime_def int_of_str_str_int) (simp add: str_int_def str_nat_digit)

text \<open>
  C5. A request whose \<open>port\<close> converts to an integer below 1 or above 4 is answered with
  status 400, and the state, which includes the log of broadcasts, is exactly the state
  before the request.
\<close>

theorem out_of_range_port_rejected:
  assumes "map_of d ''port'' = Some pv" and "py_int L pv = Inr port" and "port < 1 \<or> 4 < port"
  shows "\<exists>msg. receive_esp_data L now (JObj d) s = (Rejected msg, s)
           \<and> status_code (fst (receive_esp_data L now (JObj d) s)) = 400"
  using assms
  by (auto simp: receive_esp_data_def required_fields_def split: sum.splits bool.splits)

theorem out_of_range_port_rejected_witness:
  "py_int decimal_lib (JInt 5) = Inr 5 \<and> ((5::int) < 1 \<or> 4 < (5::int))
   \<and> receive_esp_data decimal_lib a_day (sample 5 600) fresh_db
       = (Rejected ''Invalid port number'', fresh_db)
   \<and> receive_esp_data decimal_lib a_day (sample 0 600) fresh_db
       = (Rejected ''Invalid port number'', fresh_db)"
proof -
  have "\<exists>msg. receive_esp_data decimal_lib a_day (sample 5 600) fresh_db = (Rejected msg, fresh_db)
          \<and> status_code (fst (receive_esp_data decimal_lib a_day (sample 5 600) fresh_db)) = 400"
    unfolding sample_def
    by (rule out_of_range_port_rejected [where pv = "JInt 5" and port = 5]) simp_all
  moreover have "\<exists>msg. receive_esp_data decimal_lib a_day (sample 0 600) fresh_db = (Rejected msg, fresh_db)
          \<and> status_code (fst (receive_esp_data decimal_lib a_day (sample 0 600) fresh_db)) = 400"
    unfolding sample_def
    by (rule out_of_range_port_rejected [where pv = "JInt 0" and port = 0]) simp_all
  ultimately show ?thesis
    by (simp add: receive_esp_data_def required_fields_def sample_def)
qed

text \<open>
  C4. For a request with all four fields, a port that converts to an integer in 1..4 and
  voltage, current and power that convert to floats, the projection of the state after
  the request shows exactly that reading for the port, with status \<open>online\<close> iff the
  power is positive, and shows for each of the other three ports what it showed before.
  The projection returns whenever the stored rate is readable, which the request does
  not change.
\<close>

theorem ingest_then_project_realtime:
  assumes "map_of d ''port'' = Some pv" and "map_of d ''voltage'' = Some vv"
    and "map_of d ''current'' = Some cv" and "map_of d ''power'' = Some wv"
    and "py_int L pv = Inr port" and "1 \<le> port" and "port \<le> 4"
    and "py_float L vv = Inr voltage" and "py_float L cv = Inr current"
    and "py_float L wv = Inr power_w"
    and "get_electricity_rate L s = Inr rate"
  shows "\<exists>view view0.
     get_dashboard_data L now' (snd (receive_esp_data L now (JObj d) s)) = Inr view \<and>
     get_dashboard_data L now' s = Inr view0 \<and>
     jpath view [''realtime'', port_key port] = Some (reading_view voltage current power_w) \<and>
     (\<forall>q \<in> {1, 2, 3, 4} - {port}.
        jpath view [''realtime'', port_key q] = jpath view0 [''realtime'', port_key q])"
proof -
  let ?s' = "snd (receive_esp_data L now (JObj d) s)"
  have tbl: "realtime_tbl ?s' = realtime_tbl (update_realtime_data port voltage current power_w s)"
    and st: "settings_tbl ?s' = settings_tbl s"
    using receive_realtime [OF assms(1-10)] by simp_all
  have rate': "get_electricity_rate L ?s' = Inr rate"
    using rate_settings [OF st] assms(11) by simp
  have pin: "port \<in> {1, 2, 3, 4}" using assms(6,7) by auto
  have same: "map_of (realtime_section ?s') (port_key port) =
                Some (reading_view voltage current power_w)"
    using realtime_lookup [OF pin, of ?s'] by (simp add: tbl realtime_after_update_same)
  have other: "map_of (realtime_section ?s') (port_key q) = map_of (realtime_section s) (port_key q)"
    if "q \<in> {1, 2, 3, 4} - {port}" for q
  proof -
    from that have q: "q \<in> {1, 2, 3, 4}" and ne: "q \<noteq> port" by auto
    show ?thesis
      using realtime_lookup [OF q, of ?s'] realtime_lookup [OF q, of s]
      by (simp add: tbl realtime_after_update_other [OF ne])
  qed
  show ?thesis
    using same other by (simp add: dashboard_ok [OF rate'] dashboard_ok [OF assms(11)])
qed

theorem ingest_then_project_realtime_witness:
  "get_electricity_rate decimal_lib fresh_db = Inr 8 \<and>
   (\<exists>view view0.
     get_dashboard_data decimal_lib a_day
       (snd (receive_esp_data decimal_lib a_day (sample 2 600) fresh_db)) = Inr view \<and>
     get_dashboard_data decimal_lib a_day fresh_db = Inr view0 \<and>
     jpath view [''realtime'', ''port2''] = Some (reading_view 220 2.5 600) \<and>
     jpath view [''realtime'', ''port1''] = jpath view0 [''realtime'', ''port1''] \<and>
     jpath view [''realtime'', ''port3''] = jpath view0 [''realtime'', ''port3''] \<and>
     jpath view [''realtime'', ''port4''] = jpath view0 [''realtime'', ''port4''])"
proof -
  have "\<exists>view view0.
     get_dashboard_data decimal_lib a_day
       (snd (receive_esp_data decimal_lib a_day (sample 2 600) fresh_db)) = Inr view \<and>
     get_dashboard_data decimal_lib a_day fresh_db = Inr view0 \<and>
     jpath view [''realtime'', port_key 2] = Some (reading_view 220 2.5 600) \<and>
     (\<forall>q \<in> {1, 2, 3, 4} - {2}.
        jpath view [''realtime'', port_key q] = jpath view0 [''realtime'', port_key q])"
    unfolding sample_def
    by (rule ingest_then_project_realtime
          [where pv = "JInt 2" and vv = "JFloat 220" and cv = "JFloat 2.5" and wv = "JFloat 600"
             and rate = 8])
       (simp_all add: rate_fresh)
  then obtain view view0 where
    v: "get_dashboard_data decimal_lib a_day
          (snd (receive_esp_data decimal_lib a_day (sample 2 600) fresh_db)) = Inr view"
    and v0: "get_dashboard_data decimal_lib a_day fresh_db = Inr view0"
    and same: "jpath view [''realtime'', port_key 2] = Some (reading_view 220 2.5 600)"
    and other: "\<And>q. q \<in> {1, 2, 3, 4} - {2} \<Longrightarrow>
        jpath view [''realtime'', port_key q] = jpath view0 [''realtime'', port_key q]"
    by blast
  have "jpath view [''realtime'', ''port2''] = Some (reading_view 220 2.5 600)"
    using same by (simp only: port_key_simps)
  moreover have "jpath view [''realtime'', ''port1''] = jpath view0 [''realtime'', ''port1'']"
    using other [of 1] by (simp only: port_key_simps) simp
  moreover have "jpath view [''realtime'', ''port3''] = jpath view0 [''realtime'', ''port3'']"
    using other [of 3] by (simp only: port_key_simps) simp
  moreover have "jpath view [''realtime'', ''port4''] = jpath view0 [''realtime'', ''port4'']"
    using other [of 4] by (simp only: port_key_simps) simp
  ultimately show ?thesis
    using v v0 rate_fresh by blast
qed

text \<open>
  C3. After \<open>reset_daily_data\<close>, in every state and whatever the response: no daily row
  dated today is left, the daily rows of other dates are the same, today's part of the
  projection shows 0 energy, 0 cost and \<open>0h 0m\<close> for the four ports and for the total, and
  the monthly table and the monthly part of the projection are what they were before; the
  amounts deleted from today are not subtracted from the month.
\<close>

theorem reset_today_clears_daily_keeps_monthly:
  "filter (\<lambda>r. dc_date r = now) (daily_tbl (snd (reset_daily_data L now s))) = []
   \<and> filter (\<lambda>r. dc_date r \<noteq> now) (daily_tbl (snd (reset_daily_data L now s)))
       = filter (\<lambda>r. dc_date r \<noteq> now) (daily_tbl s)
   \<and> monthly_tbl (snd (reset_daily_data L now s)) = monthly_tbl s
   \<and> monthly_section now (snd (reset_daily_data L now s)) = monthly_section now s
   \<and> today_section now (snd (reset_daily_data L now s)) =
     [(''port1'', JObj [(''energy'', JInt 0), (''cost'', JInt 0), (''runtime'', JStr ''0h 0m'')]),
      (''port2'', JObj [(''energy'', JInt 0), (''cost'', JInt 0), (''runtime'', JStr ''0h 0m'')]),
      (''port3'', JObj [(''energy'', JInt 0), (''cost'', JInt 0), (''runtime'', JStr ''0h 0m'')]),
      (''port4'', JObj [(''energy'', JInt 0), (''cost'', JInt 0), (''runtime'', JStr ''0h 0m'')]),
      (''total'', JObj [(''energy'', JInt 0), (''cost'', JInt 0), (''runtime'', JStr ''0h 0m'')])]"
proof -
  let ?s' = "snd (reset_daily_data L now s)"
  have d: "daily_tbl ?s' = filter (\<lambda>r. dc_date r \<noteq> now) (daily_tbl s)"
    and m: "monthly_tbl ?s' = monthly_tbl s"
    using reset_state [of L now s] by simp_all
  have t: "today_section now ?s' = today_section now (s\<lparr>daily_tbl := filter (\<lambda>r. dc_date r \<noteq> now) (daily_tbl s)\<rparr>)"
    by (rule today_section_cong) (simp add: d)
  show ?thesis
    unfolding t today_section_after_delete
    by (simp add: d m monthly_section_cong [OF m]) 
qed

text \<open>
  C9. In every view that \<open>get_dashboard_data\<close> returns, the field \<open>days\<close> of the monthly
  total is the day-of-month of the current date. The value bound to \<open>days_in_month\<close> is not
  used: on 2026-11-03 the field is 3 while that expression gives the 30th.
\<close>

theorem monthly_total_days_is_day_of_month:
  assumes "get_dashboard_data L now s = Inr view"
  shows "jpath view [''monthly'', ''total'', ''days''] = Some (JInt (day now))"
  unfolding dashboard_view(2) [OF assms] using month_total_shown [of now s] by simp

theorem monthly_total_days_is_day_of_month_witness:
  "\<exists>view. get_dashboard_data decimal_lib a_day fresh_db = Inr view
     \<and> jpath view [''monthly'', ''total'', ''days''] = Some (JInt 3)
     \<and> day (days_in_month_expr a_day) = 30"
proof -
  obtain view where v: "get_dashboard_data decimal_lib a_day fresh_db = Inr view"
    using dashboard_ok [OF rate_fresh] by blast
  have "jpath view [''monthly'', ''total'', ''days''] = Some (JInt (day a_day))"
    by (rule monthly_total_days_is_day_of_month [OF v])
  then show ?thesis using v by (simp add: days_in_month_a_day) (simp add: a_day_def)
qed

text \<open>
  C10. In every view that \<open>get_dashboard_data\<close> returns, the totals of today's and of this
  month's energy and cost are the stored values of the four ports' buckets (0 for a port
  without bucket), summed unrounded and rounded once to two decimals. The total can
  differ from the sum of the four displayed per-port values: with four buckets of 0.004
  each, every port displays 0.0 and the total displays 0.02.
\<close>

theorem totals_round_the_unrounded_sum:
  assumes "get_dashboard_data L now s = Inr view"
  shows "map_option num_of (jpath view [''today'', ''total'', ''energy'']) =
           Some (round2 (\<Sum>p\<leftarrow>[1, 2, 3, 4]. stored dc_energy_kwh (daily_of now s p)))
       \<and> map_option num_of (jpath view [''today'', ''total'', ''cost'']) =
           Some (round2 (\<Sum>p\<leftarrow>[1, 2, 3, 4]. stored dc_cost_bdt (daily_of now s p)))
       \<and> map_option num_of (jpath view [''monthly'', ''total'', ''energy'']) =
           Some (round2 (\<Sum>p\<leftarrow>[1, 2, 3, 4]. stored mc_energy_kwh (monthly_of now s p)))
       \<and> map_option num_of (jpath view [''monthly'', ''total'', ''cost'']) =
           Some (round2 (\<Sum>p\<leftarrow>[1, 2, 3, 4]. stored mc_cost_bdt (monthly_of now s p)))
       \<and> (\<exists>v. get_dashboard_data decimal_lib a_day (seeded_db 0.004 0.032 0) = Inr v
            \<and> map_option num_of (jpath v [''today'', ''total'', ''energy''])
                \<noteq> Some (\<Sum>p\<leftarrow>[1, 2, 3, 4]. case jpath v [''today'', port_key p, ''energy''] of
                                            Some x \<Rightarrow> num_of x | None \<Rightarrow> 0))"
proof -
  obtain v where v: "get_dashboard_data decimal_lib a_day (seeded_db 0.004 0.032 0) = Inr v"
    using dashboard_ok [OF rate_seeded] by blast
  have "map_option num_of (jpath v [''today'', ''total'', ''energy''])
          \<noteq> Some (\<Sum>p\<leftarrow>[1, 2, 3, 4]. case jpath v [''today'', port_key p, ''energy''] of
                                            Some x \<Rightarrow> num_of x | None \<Rightarrow> 0)"
    unfolding dashboard_view(1) [OF v] by (simp add: seeded_today port_key_simps)
  with v have ex: "\<exists>v. get_dashboard_data decimal_lib a_day (seeded_db 0.004 0.032 0) = Inr v
            \<and> map_option num_of (jpath v [''today'', ''total'', ''energy''])
                \<noteq> Some (\<Sum>p\<leftarrow>[1, 2, 3, 4]. case jpath v [''today'', port_key p, ''energy''] of
                                            Some x \<Rightarrow> num_of x | None \<Rightarrow> 0)"
    by blast
  show ?thesis
    unfolding dashboard_view(1) [OF assms] dashboard_view(2) [OF assms]
    using today_total_shown [of now s] month_total_shown [of now s] ex by blast
qed

theorem totals_round_the_unrounded_sum_witness:
  "\<exists>view. get_dashboard_data decimal_lib a_day (seeded_db 0.004 0.032 0) = Inr view
     \<and> map_option num_of (jpath view [''today'', ''total'', ''energy'']) = Some 0.02
     \<and> map_option num_of (jpath view [''today'', ''total'', ''cost'']) = Some 0.13
     \<and> map_option num_of (jpath view [''monthly'', ''total'', ''energy'']) = Some 0.02
     \<and> map_option num_of (jpath view [''monthly'', ''total'', ''cost'']) = Some 0.13
     \<and> jpath view [''today'', ''port1'', ''energy''] = Some (JFloat 0)
     \<and> jpath view [''today'', ''port2'', ''energy''] = Some (JFloat 0)
     \<and> jpath view [''today'', ''port3'', ''energy''] = Some (JFloat 0)
     \<and> jpath view [''today'', ''port4'', ''energy''] = Some (JFloat 0)"
proof -
  obtain view where v: "get_dashboard_data decimal_lib a_day (seeded_db 0.004 0.032 0) = Inr view"
    using dashboard_ok [OF rate_seeded] by blast
  have r: "round2 (4 * 0.004) = 0.02" "round2 (4 * 0.032) = 0.13"
    by (simp_all add: round2_def round_half_even_def)
  have ports: "jpath view [''today'', ''port1'', ''energy''] = Some (JFloat 0)"
     "jpath view [''today'', ''port2'', ''energy''] = Some (JFloat 0)"
     "jpath view [''today'', ''port3'', ''energy''] = Some (JFloat 0)"
     "jpath view [''today'', ''port4'', ''energy''] = Some (JFloat 0)"
    unfolding dashboard_view(1) [OF v] by (simp_all add: seeded_today)
  show ?thesis
    using totals_round_the_unrounded_sum [OF v] v ports
    unfolding seeded_sums r by blast
qed

text \<open>
  C1. The accumulation law, evaluated. On a database whose buckets for the day and the
  month exist with 0 energy and 0 cost, a sample of 600 W at rate 8.0 leaves 0.01 energy
  and 0.08 cost in the daily and in the monthly bucket, and a second sample leaves 0.02 and
  0.16. On the database that \<open>init_database()\<close> leaves, where no bucket exists yet, the
  same request ends in the handler for exceptions with a TypeError, once and again: the
  new \<open>DailyConsumption\<close> object reads \<open>None\<close> for \<open>energy_kwh\<close> until it is flushed, and
  \<open>daily_record.energy_kwh += energy_kwh\<close> comes before the commit. The realtime row is
  written, no daily and no monthly bucket is.
\<close>

theorem first_sample_raises_type_error:
  "receive_esp_data decimal_lib a_day (sample 1 600) fresh_db
     = (Failed TypeError, update_realtime_data 1 220 2.5 600 fresh_db)
   \<and> receive_esp_data decimal_lib a_day (sample 1 600) (update_realtime_data 1 220 2.5 600 fresh_db)
     = (Failed TypeError, update_realtime_data 1 220 2.5 600 fresh_db)
   \<and> daily_tbl (update_realtime_data 1 220 2.5 600 fresh_db) = []
   \<and> monthly_tbl (update_realtime_data 1 220 2.5 600 fresh_db) = []
   \<and> map_option dc_energy_kwh
       (daily_of a_day (snd (receive_esp_data decimal_lib a_day (sample 1 600) (seeded_db 0 0 0))) 1)
      = Some 0.01
   \<and> map_option dc_cost_bdt
       (daily_of a_day (snd (receive_esp_data decimal_lib a_day (sample 1 600) (seeded_db 0 0 0))) 1)
      = Some 0.08
   \<and> map_option mc_energy_kwh
       (monthly_of a_day (snd (receive_esp_data decimal_lib a_day (sample 1 600) (seeded_db 0 0 0))) 1)
      = Some 0.01
   \<and> map_option mc_cost_bdt
       (monthly_of a_day (snd (receive_esp_data decimal_lib a_day (sample 1 600) (seeded_db 0 0 0))) 1)
      = Some 0.08
   \<and> map_option dc_energy_kwh
       (daily_of a_day (snd (receive_esp_data decimal_lib a_day (sample 1 600)
          (snd (receive_esp_data decimal_lib a_day (sample 1 600) (seeded_db 0 0 0))))) 1)
      = Some 0.02
   \<and> map_option dc_cost_bdt
       (daily_of a_day (snd (receive_esp_data decimal_lib a_day (sample 1 600)
          (snd (receive_esp_data decimal_lib a_day (sample 1 600) (seeded_db 0 0 0))))) 1)
      = Some 0.16
   \<and> map_option mc_energy_kwh
       (monthly_of a_day (snd (receive_esp_data decimal_lib a_day (sample 1 600)
          (snd (receive_esp_data decimal_lib a_day (sample 1 600) (seeded_db 0 0 0))))) 1)
      = Some 0.02
   \<and> map_option mc_cost_bdt
       (monthly_of a_day (snd (receive_esp_data decimal_lib a_day (sample 1 600)
          (snd (receive_esp_data decimal_lib a_day (sample 1 600) (seeded_db 0 0 0))))) 1)
      = Some 0.16"
proof -
  have raises: "receive_esp_data decimal_lib a_day (sample 1 600) fresh_db
     = (Failed TypeError, update_realtime_data 1 220 2.5 600 fresh_db)
   \<and> receive_esp_data decimal_lib a_day (sample 1 600) (update_realtime_data 1 220 2.5 600 fresh_db)
     = (Failed TypeError, update_realtime_data 1 220 2.5 600 fresh_db)
   \<and> daily_tbl (update_realtime_data 1 220 2.5 600 fresh_db) = []
   \<and> monthly_tbl (update_realtime_data 1 220 2.5 600 fresh_db) = []"
    by (simp add: receive_esp_data_def required_fields_def sample_def update_realtime_data_def
       update_daily_consumption_def get_electricity_rate_def fresh_db_def decimal_lib_def
       dec_float_unsigned_def digit_of_def DailyConsumption_def Let_def)
  show ?thesis
    using raises two_samples_on_zero_buckets by blast
qed

text \<open>
  C2. A valid sample at a readable rate, by the buckets of its port.
  When the daily bucket of (today, port) does not exist, the first call for the new key
  does not create it at zero plus the increment: the request ends in the handler for
  exceptions with a TypeError, the realtime row is written, the daily and the monthly
  table are what they were.
  When the daily bucket exists and the monthly bucket of (year, month, port) does not,
  the daily bucket receives the increment, then the monthly step raises TypeError and
  no monthly bucket is created.
  When both exist the request succeeds: it adds \<open>power * 1 / 60000\<close> to the energy and
  that amount times the rate to the cost of both buckets, on top of the values they
  held, and leaves every other bucket as it was; with a power and a rate that are not
  negative, energy and cost of the two buckets do not decrease.
\<close>

theorem bucket_creation_and_accumulation:
  assumes "map_of d ''port'' = Some pv" and "map_of d ''voltage'' = Some vv"
    and "map_of d ''current'' = Some cv" and "map_of d ''power'' = Some wv"
    and "py_int L pv = Inr port" and "1 \<le> port" and "port \<le> 4"
    and "py_float L vv = Inr voltage" and "py_float L cv = Inr current"
    and "py_float L wv = Inr power_w"
    and "get_electricity_rate L s = Inr rate"
  shows
   "(daily_of now s port = None \<longrightarrow>
       receive_esp_data L now (JObj d) s =
         (Failed TypeError, update_realtime_data port voltage current power_w s) \<and>
       daily_tbl (snd (receive_esp_data L now (JObj d) s)) = daily_tbl s \<and>
       monthly_tbl (snd (receive_esp_data L now (JObj d) s)) = monthly_tbl s)
    \<and> (\<forall>r. daily_of now s port = Some r \<and> monthly_of now s port = None \<longrightarrow>
       fst (receive_esp_data L now (JObj d) s) = Failed TypeError \<and>
       monthly_tbl (snd (receive_esp_data L now (JObj d) s)) = monthly_tbl s \<and>
       (\<exists>r'. daily_of now (snd (receive_esp_data L now (JObj d) s)) port = Some r' \<and>
          dc_energy_kwh r' = dc_energy_kwh r + power_w * 1 / 60000 \<and>
          dc_cost_bdt r' = dc_cost_bdt r + power_w * 1 / 60000 * rate))
    \<and> (\<forall>r m. daily_of now s port = Some r \<and> monthly_of now s port = Some m \<longrightarrow>
       (\<exists>r' m'.
          fst (receive_esp_data L now (JObj d) s) = Success \<and>
          daily_of now (snd (receive_esp_data L now (JObj d) s)) port = Some r' \<and>
          monthly_of now (snd (receive_esp_data L now (JObj d) s)) port = Some m' \<and>
          dc_energy_kwh r' = dc_energy_kwh r + power_w * 1 / 60000 \<and>
          dc_cost_bdt r' = dc_cost_bdt r + power_w * 1 / 60000 * rate \<and>
          mc_energy_kwh m' = mc_energy_kwh m + power_w * 1 / 60000 \<and>
          mc_cost_bdt m' = mc_cost_bdt m + power_w * 1 / 60000 * rate \<and>
          (\<forall>d' q. d' \<noteq> now \<or> q \<noteq> port \<longrightarrow>
             daily_of d' (snd (receive_esp_data L now (JObj d) s)) q = daily_of d' s q) \<and>
          (\<forall>n' q. year n' \<noteq> year now \<or> month n' \<noteq> month now \<or> q \<noteq> port \<longrightarrow>
             monthly_of n' (snd (receive_esp_data L now (JObj d) s)) q = monthly_of n' s q) \<and>
          (0 \<le> power_w \<and> 0 \<le> rate \<longrightarrow>
             dc_energy_kwh r \<le> dc_energy_kwh r' \<and> dc_cost_bdt r \<le> dc_cost_bdt r' \<and>
             mc_energy_kwh m \<le> mc_energy_kwh m' \<and> mc_cost_bdt m \<le> mc_cost_bdt m')))"
proof (intro conjI allI impI)
  assume n: "daily_of now s port = None"
  show a: "receive_esp_data L now (JObj d) s =
         (Failed TypeError, update_realtime_data port voltage current power_w s)"
    by (rule receive_daily_missing [OF assms n])
  show "daily_tbl (snd (receive_esp_data L now (JObj d) s)) = daily_tbl s"
    by (simp add: a update_realtime_data_def Let_def)
  show "monthly_tbl (snd (receive_esp_data L now (JObj d) s)) = monthly_tbl s"
    by (simp add: a update_realtime_data_def Let_def)
next
  fix r
  assume h: "daily_of now s port = Some r \<and> monthly_of now s port = None"
  note m = receive_monthly_missing [OF assms h [THEN conjunct1] h [THEN conjunct2]]
  show "fst (receive_esp_data L now (JObj d) s) = Failed TypeError" by (rule m(1))
  show "monthly_tbl (snd (receive_esp_data L now (JObj d) s)) = monthly_tbl s" by (rule m(2))
  show "\<exists>r'. daily_of now (snd (receive_esp_data L now (JObj d) s)) port = Some r' \<and>
          dc_energy_kwh r' = dc_energy_kwh r + power_w * 1 / 60000 \<and>
          dc_cost_bdt r' = dc_cost_bdt r + power_w * 1 / 60000 * rate"
    using m(3) by simp
next
  fix r m
  assume h: "daily_of now s port = Some r \<and> monthly_of now s port = Some m"
  note a = assms h [THEN conjunct1] h [THEN conjunct2]
  show "\<exists>r' m'.
          fst (receive_esp_data L now (JObj d) s) = Success \<and>
          daily_of now (snd (receive_esp_data L now (JObj d) s)) port = Some r' \<and>
          monthly_of now (snd (receive_esp_data L now (JObj d) s)) port = Some m' \<and>
          dc_energy_kwh r' = dc_energy_kwh r + power_w * 1 / 60000 \<and>
          dc_cost_bdt r' = dc_cost_bdt r + power_w * 1 / 60000 * rate \<and>
          mc_energy_kwh m' = mc_energy_kwh m + power_w * 1 / 60000 \<and>
          mc_cost_bdt m' = mc_cost_bdt m + power_w * 1 / 60000 * rate \<and>
          (\<forall>d' q. d' \<noteq> now \<or> q \<noteq> port \<longrightarrow>
             daily_of d' (snd (receive_esp_data L now (JObj d) s)) q = daily_of d' s q) \<and>
          (\<forall>n' q. year n' \<noteq> year now \<or> month n' \<noteq> month now \<or> q \<noteq> port \<longrightarrow>
             monthly_of n' (snd (receive_esp_data L now (JObj d) s)) q = monthly_of n' s q) \<and>
          (0 \<le> power_w \<and> 0 \<le> rate \<longrightarrow>
             dc_energy_kwh r \<le> dc_energy_kwh r' \<and> dc_cost_bdt r \<le> dc_cost_bdt r' \<and>
             mc_energy_kwh m \<le> mc_energy_kwh m' \<and> mc_cost_bdt m \<le> mc_cost_bdt m')"
    using receive_existing(1) [OF a] receive_existing_buckets [OF a]
    by simp
qed

theorem bucket_creation_and_accumulation_witness:
  "daily_of a_day fresh_db 1 = None
   \<and> receive_esp_data decimal_lib a_day (sample 1 600) fresh_db
       = (Failed TypeError, update_realtime_data 1 220 2.5 600 fresh_db)
   \<and> daily_tbl (snd (receive_esp_data decimal_lib a_day (sample 1 600) fresh_db)) = []
   \<and> monthly_tbl (snd (receive_esp_data decimal_lib a_day (sample 1 600) fresh_db)) = []
   \<and> daily_of a_day ((seeded_db 0 0 0)\<lparr>monthly_tbl := []\<rparr>) 1 = Some (daily_bucket 0 0 0 1)
   \<and> monthly_of a_day ((seeded_db 0 0 0)\<lparr>monthly_tbl := []\<rparr>) 1 = None
   \<and> fst (receive_esp_data decimal_lib a_day (sample 1 600) ((seeded_db 0 0 0)\<lparr>monthly_tbl := []\<rparr>))
       = Failed TypeError
   \<and> monthly_tbl (snd (receive_esp_data decimal_lib a_day (sample 1 600)
         ((seeded_db 0 0 0)\<lparr>monthly_tbl := []\<rparr>))) = []
   \<and> (\<exists>r'. daily_of a_day (snd (receive_esp_data decimal_lib a_day (sample 1 600)
               ((seeded_db 0 0 0)\<lparr>monthly_tbl := []\<rparr>))) 1 = Some r'
          \<and> dc_energy_kwh r' = 0.01 \<and> dc_cost_bdt r' = 0.08)
   \<and> daily_of a_day (seeded_db 0 0 0) 1 = Some (daily_bucket 0 0 0 1)
   \<and> monthly_of a_day (seeded_db 0 0 0) 1 = Some (monthly_bucket 0 0 1)
   \<and> (\<exists>r' m'.
        fst (receive_esp_data decimal_lib a_day (sample 1 600) (seeded_db 0 0 0)) = Success \<and>
        daily_of a_day (snd (receive_esp_data decimal_lib a_day (sample 1 600) (seeded_db 0 0 0))) 1
          = Some r' \<and>
        monthly_of a_day (snd (receive_esp_data decimal_lib a_day (sample 1 600) (seeded_db 0 0 0))) 1
          = Some m' \<and>
        dc_energy_kwh r' = 0.01 \<and> dc_cost_bdt r' = 0.08 \<and>
        mc_energy_kwh m' = 0.01 \<and> mc_cost_bdt m' = 0.08)"
proof -
  have f: "map_of [(''port'', JInt 1), (''voltage'', JFloat 220), (''current'', JFloat 2.5),
             (''power'', JFloat 600)] ''port'' = Some (JInt 1)"
    "map_of [(''port'', JInt 1), (''voltage'', JFloat 220), (''current'', JFloat 2.5),
             (''power'', JFloat 600)] ''voltage'' = Some (JFloat 220)"
    "map_of [(''port'', JInt 1), (''voltage'', JFloat 220), (''current'', JFloat 2.5),
             (''power'', JFloat 600)] ''current'' = Some (JFloat 2.5)"
    "map_of [(''port'', JInt 1), (''voltage'', JFloat 220), (''current'', JFloat 2.5),
             (''power'', JFloat 600)] ''power'' = Some (JFloat 600)"
    by simp_all
  have c: "py_int decimal_lib (JInt 1) = Inr 1" "(1::int) \<le> 1" "(1::int) \<le> 4"
    "py_float decimal_lib (JFloat 220) = Inr 220"
    "py_float decimal_lib (JFloat 2.5) = Inr 2.5" "py_float decimal_lib (JFloat 600) = Inr 600"
    by simp_all
  note t1 = bucket_creation_and_accumulation [OF f c rate_fresh, of a_day, folded sample_def,
      THEN conjunct1]
  note t2 = bucket_creation_and_accumulation [OF f c daily_only_db(1), of a_day 0 0 0,
      folded sample_def, THEN conjunct2, THEN conjunct1]
  note t3 = bucket_creation_and_accumulation [OF f c rate_seeded, of a_day 0 0 0,
      folded sample_def, THEN conjunct2, THEN conjunct2]
  have e: "daily_tbl fresh_db = []" "monthly_tbl fresh_db = []"
    by (simp_all add: fresh_db_def)
  have p1: "receive_esp_data decimal_lib a_day (sample 1 600) fresh_db
       = (Failed TypeError, update_realtime_data 1 220 2.5 600 fresh_db)
   \<and> daily_tbl (snd (receive_esp_data decimal_lib a_day (sample 1 600) fresh_db)) = []
   \<and> monthly_tbl (snd (receive_esp_data decimal_lib a_day (sample 1 600) fresh_db)) = []"
    by (rule t1 [THEN mp, OF fresh_no_bucket, unfolded e])
  have p2: "fst (receive_esp_data decimal_lib a_day (sample 1 600) ((seeded_db 0 0 0)\<lparr>monthly_tbl := []\<rparr>))
       = Failed TypeError
   \<and> monthly_tbl (snd (receive_esp_data decimal_lib a_day (sample 1 600)
         ((seeded_db 0 0 0)\<lparr>monthly_tbl := []\<rparr>))) = []
   \<and> (\<exists>r'. daily_of a_day (snd (receive_esp_data decimal_lib a_day (sample 1 600)
               ((seeded_db 0 0 0)\<lparr>monthly_tbl := []\<rparr>))) 1 = Some r'
          \<and> dc_energy_kwh r' = 0.01 \<and> dc_cost_bdt r' = 0.08)"
    using t2 by (simp add: daily_only_db daily_bucket_def)
  have p3: "\<exists>r' m'.
        fst (receive_esp_data decimal_lib a_day (sample 1 600) (seeded_db 0 0 0)) = Success \<and>
        daily_of a_day (snd (receive_esp_data decimal_lib a_day (sample 1 600) (seeded_db 0 0 0))) 1
          = Some r' \<and>
        monthly_of a_day (snd (receive_esp_data decimal_lib a_day (sample 1 600) (seeded_db 0 0 0))) 1
          = Some m' \<and>
        dc_energy_kwh r' = 0.01 \<and> dc_cost_bdt r' = 0.08 \<and>
        mc_energy_kwh m' = 0.01 \<and> mc_cost_bdt m' = 0.08"
    using t3 by (simp add: seeded_buckets daily_bucket_def monthly_bucket_def) blast
  show ?thesis
    using p1 p2 p3 fresh_no_bucket daily_only_db(2,3) [of 0 0 0] seeded_buckets [of 0 0 0]
    by blast
qed

text \<open>
  C7. The daily step at a readable rate. When the bucket of (today, port) exists, the step
  returns, the bucket's runtime grows by the one elapsed minute exactly when the power is
  positive, its energy grows by \<open>power * 1 / 60000\<close> and its cost by that amount times the
  rate; at power 0 runtime, energy and cost keep their values. When the bucket does not
  exist the step raises TypeError and writes nothing, whatever the power.
\<close>

theorem daily_step_runtime:
  assumes "get_electricity_rate L s = Inr rate"
  shows "(\<forall>r. daily_of now s port = Some r \<longrightarrow>
           (\<exists>s' r'. update_daily_consumption L now port w s = Inr s' \<and>
              daily_of now s' port = Some r' \<and>
              dc_runtime_minutes r' = dc_runtime_minutes r + (if w > 0 then 1 else 0) \<and>
              dc_energy_kwh r' = dc_energy_kwh r + w * 1 / 60000 \<and>
              dc_cost_bdt r' = dc_cost_bdt r + w * 1 / 60000 * rate \<and>
              (w = 0 \<longrightarrow> dc_runtime_minutes r' = dc_runtime_minutes r \<and>
                 dc_energy_kwh r' = dc_energy_kwh r \<and> dc_cost_bdt r' = dc_cost_bdt r)))
       \<and> (daily_of now s port = None \<longrightarrow>
            update_daily_consumption L now port w s = Inl TypeError)"
proof (intro conjI allI impI)
  fix r
  assume r: "daily_of now s port = Some r"
  define r' where "r' = \<lparr>dc_date = now, dc_port = port,
             dc_energy_kwh = dc_energy_kwh r + w / 60000,
             dc_cost_bdt = dc_cost_bdt r + w / 60000 * rate,
             dc_runtime_minutes = dc_runtime_minutes r + (if w > 0 then 1 else 0)\<rparr>"
  define s' where
    "s' = s\<lparr>daily_tbl := write_back (\<lambda>r. dc_date r = now \<and> dc_port r = port) r' (daily_tbl s)\<rparr>"
  have u: "update_daily_consumption L now port w s = Inr s'"
    unfolding s'_def r'_def by (rule update_daily_existing [OF r assms])
  have k: "dc_date r' = now \<and> dc_port r' = port"
    by (simp add: r'_def)
  have f: "daily_of now s' port = Some r'"
    using find_write_back_same [OF r [unfolded daily_of_def], of r'] k
    by (simp add: daily_of_def s'_def)
  have v: "dc_runtime_minutes r' = dc_runtime_minutes r + (if w > 0 then 1 else 0)"
    "dc_energy_kwh r' = dc_energy_kwh r + w * 1 / 60000"
    "dc_cost_bdt r' = dc_cost_bdt r + w * 1 / 60000 * rate"
    by (simp_all add: r'_def)
  have z: "w = 0 \<longrightarrow> dc_runtime_minutes r' = dc_runtime_minutes r \<and>
                 dc_energy_kwh r' = dc_energy_kwh r \<and> dc_cost_bdt r' = dc_cost_bdt r"
    by (simp add: r'_def)
  show "\<exists>s' r'. update_daily_consumption L now port w s = Inr s' \<and>
              daily_of now s' port = Some r' \<and>
              dc_runtime_minutes r' = dc_runtime_minutes r + (if w > 0 then 1 else 0) \<and>
              dc_energy_kwh r' = dc_energy_kwh r + w * 1 / 60000 \<and>
              dc_cost_bdt r' = dc_cost_bdt r + w * 1 / 60000 * rate \<and>
              (w = 0 \<longrightarrow> dc_runtime_minutes r' = dc_runtime_minutes r \<and>
                 dc_energy_kwh r' = dc_energy_kwh r \<and> dc_cost_bdt r' = dc_cost_bdt r)"
    using u f v z by blast
next
  assume "daily_of now s port = None"
  then show "update_daily_consumption L now port w s = Inl TypeError"
    by (rule update_daily_missing [OF _ assms])
qed

theorem daily_step_runtime_witness:
  "get_electricity_rate decimal_lib (seeded_db 0 0 10) = Inr 8
   \<and> daily_of a_day (seeded_db 0 0 10) 1 = Some (daily_bucket 0 0 10 1)
   \<and> (\<exists>s' r'. update_daily_consumption decimal_lib a_day 1 600 (seeded_db 0 0 10) = Inr s' \<and>
          daily_of a_day s' 1 = Some r' \<and> dc_runtime_minutes r' = 11)
   \<and> (\<exists>s' r'. update_daily_consumption decimal_lib a_day 1 0 (seeded_db 0 0 10) = Inr s' \<and>
          daily_of a_day s' 1 = Some r' \<and> dc_runtime_minutes r' = 10 \<and>
          dc_energy_kwh r' = 0 \<and> dc_cost_bdt r' = 0)
   \<and> get_electricity_rate decimal_lib fresh_db = Inr 8
   \<and> daily_of a_day fresh_db 1 = None
   \<and> update_daily_consumption decimal_lib a_day 1 600 fresh_db = Inl TypeError"
proof -
  note a = daily_step_runtime [OF rate_seeded, of a_day 0 0 10 1 600]
  note b = daily_step_runtime [OF rate_seeded, of a_day 0 0 10 1 0]
  note c = daily_step_runtime [OF rate_fresh, of a_day 1 600]
  have "\<exists>s' r'. update_daily_consumption decimal_lib a_day 1 600 (seeded_db 0 0 10) = Inr s' \<and>
          daily_of a_day s' 1 = Some r' \<and> dc_runtime_minutes r' = 11"
    using a by (simp add: seeded_buckets daily_bucket_def) blast
  moreover have "\<exists>s' r'. update_daily_consumption decimal_lib a_day 1 0 (seeded_db 0 0 10) = Inr s' \<and>
          daily_of a_day s' 1 = Some r' \<and> dc_runtime_minutes r' = 10 \<and>
          dc_energy_kwh r' = 0 \<and> dc_cost_bdt r' = 0"
    using b by (simp add: seeded_buckets daily_bucket_def) blast
  moreover have "update_daily_consumption decimal_lib a_day 1 600 fresh_db = Inl TypeError"
    using c by (simp add: fresh_no_bucket)
  ultimately show ?thesis
    by (simp add: rate_seeded rate_fresh seeded_buckets fresh_no_bucket)
qed

text \<open>
  C6, as the code has it. For a request whose body is a JSON object: when one of
  \<open>port\<close>, \<open>voltage\<close>, \<open>current\<close>, \<open>power\<close> is missing, the answer is status 400 with
  \<open>Missing required fields\<close>. When the four are present and \<open>int(port)\<close> raises, or the
  port is in 1..4 and \<open>float\<close> raises on the voltage, the current or the power, the
  exception reaches \<open>except Exception\<close> and the answer is status 500. In each case the
  state, with the log of broadcasts, is the state before the request.
\<close>

theorem missing_or_nonnumeric_field:
  "((map_of d ''port'' = None \<or> map_of d ''voltage'' = None \<or>
     map_of d ''current'' = None \<or> map_of d ''power'' = None) \<longrightarrow>
      receive_esp_data L now (JObj d) s = (Rejected ''Missing required fields'', s) \<and>
      status_code (fst (receive_esp_data L now (JObj d) s)) = 400)
   \<and> (\<forall>pv vv cv wv.
        map_of d ''port'' = Some pv \<and> map_of d ''voltage'' = Some vv \<and>
        map_of d ''current'' = Some cv \<and> map_of d ''power'' = Some wv \<longrightarrow>
        (\<forall>e. py_int L pv = Inl e \<longrightarrow>
           receive_esp_data L now (JObj d) s = (Failed e, s) \<and>
           status_code (fst (receive_esp_data L now (JObj d) s)) = 500) \<and>
        (\<forall>port e. py_int L pv = Inr port \<and> 1 \<le> port \<and> port \<le> 4 \<and>
           (py_float L vv = Inl e \<or> py_float L cv = Inl e \<or> py_float L wv = Inl e) \<longrightarrow>
           (\<exists>e'. receive_esp_data L now (JObj d) s = (Failed e', s)) \<and>
           status_code (fst (receive_esp_data L now (JObj d) s)) = 500))"
proof (intro conjI allI impI)
  assume m: "map_of d ''port'' = None \<or> map_of d ''voltage'' = None \<or>
     map_of d ''current'' = None \<or> map_of d ''power'' = None"
  show "receive_esp_data L now (JObj d) s = (Rejected ''Missing required fields'', s)"
    by (rule receive_missing [OF m])
  then show "status_code (fst (receive_esp_data L now (JObj d) s)) = 400" by simp
next
  fix pv vv cv wv e
  assume p: "map_of d ''port'' = Some pv \<and> map_of d ''voltage'' = Some vv \<and>
        map_of d ''current'' = Some cv \<and> map_of d ''power'' = Some wv"
    and e: "py_int L pv = Inl e"
  from p e show r: "receive_esp_data L now (JObj d) s = (Failed e, s)"
    by (auto intro: receive_bad_port)
  then show "status_code (fst (receive_esp_data L now (JObj d) s)) = 500" by simp
next
  fix pv vv cv wv port e
  assume p: "map_of d ''port'' = Some pv \<and> map_of d ''voltage'' = Some vv \<and>
        map_of d ''current'' = Some cv \<and> map_of d ''power'' = Some wv"
    and q: "py_int L pv = Inr port \<and> 1 \<le> port \<and> port \<le> 4 \<and>
           (py_float L vv = Inl e \<or> py_float L cv = Inl e \<or> py_float L wv = Inl e)"
  from p q show r: "\<exists>e'. receive_esp_data L now (JObj d) s = (Failed e', s)"
    using receive_bad_number [of d pv vv cv wv L port e now s] by blast
  then show "status_code (fst (receive_esp_data L now (JObj d) s)) = 500" by auto
qed

theorem missing_or_nonnumeric_field_witness:
  "receive_esp_data decimal_lib a_day
      (JObj [(''port'', JInt 1), (''voltage'', JFloat 220), (''current'', JFloat 2.5)]) fresh_db
     = (Rejected ''Missing required fields'', fresh_db)
   \<and> py_int decimal_lib JNull = Inl TypeError
   \<and> receive_esp_data decimal_lib a_day
      (JObj [(''port'', JNull), (''voltage'', JFloat 220), (''current'', JFloat 2.5),
             (''power'', JFloat 600)]) fresh_db
     = (Failed TypeError, fresh_db)
   \<and> py_float decimal_lib (JStr ''12v'') = Inl ValueError
   \<and> (\<exists>e'. receive_esp_data decimal_lib a_day
      (JObj [(''port'', JInt 1), (''voltage'', JFloat 220), (''current'', JStr ''12v''),
             (''power'', JFloat 600)]) fresh_db
     = (Failed e', fresh_db))"
proof -
  have v: "py_float decimal_lib (JStr ''12v'') = Inl ValueError"
    by (simp add: decimal_lib_def dec_float_unsigned_def digit_of_def)
  have "receive_esp_data decimal_lib a_day
      (JObj [(''port'', JInt 1), (''voltage'', JFloat 220), (''current'', JFloat 2.5)]) fresh_db
     = (Rejected ''Missing required fields'', fresh_db)"
    using missing_or_nonnumeric_field
      [where d = "[(''port'', JInt 1), (''voltage'', JFloat 220), (''current'', JFloat 2.5)]"
         and L = decimal_lib and now = a_day and s = fresh_db]
    by simp
  moreover have "receive_esp_data decimal_lib a_day
      (JObj [(''port'', JNull), (''voltage'', JFloat 220), (''current'', JFloat 2.5),
             (''power'', JFloat 600)]) fresh_db
     = (Failed TypeError, fresh_db)"
    using missing_or_nonnumeric_field
      [where d = "[(''port'', JNull), (''voltage'', JFloat 220), (''current'', JFloat 2.5),
             (''power'', JFloat 600)]"
         and L = decimal_lib and now = a_day and s = fresh_db]
    by simp
  moreover have "\<exists>e'. receive_esp_data decimal_lib a_day
      (JObj [(''port'', JInt 1), (''voltage'', JFloat 220), (''current'', JStr ''12v''),
             (''power'', JFloat 600)]) fresh_db
     = (Failed e', fresh_db)"
    using missing_or_nonnumeric_field
      [where d = "[(''port'', JInt 1), (''voltage'', JFloat 220), (''current'', JStr ''12v''),
             (''power'', JFloat 600)]"
         and L = decimal_lib and now = a_day and s = fresh_db]
    by (simp add: decimal_lib_def dec_float_unsigned_def digit_of_def)
  ultimately show ?thesis using v by simp
qed

text \<open>
  A voltage \<open>"abc"\<close> with a valid port: \<open>float\<close> raises ValueError and the answer is
  status 500, not 400.
\<close>

theorem nonnumeric_field_is_server_error:
  "py_float decimal_lib (JStr ''abc'') = Inl ValueError
   \<and> receive_esp_data decimal_lib a_day
        (JObj [(''port'', JInt 1), (''voltage'', JStr ''abc''), (''current'', JFloat 2.5),
               (''power'', JFloat 600)]) fresh_db
      = (Failed ValueError, fresh_db)
   \<and> status_code (Failed ValueError) = 500
   \<and> status_code (Failed ValueError) \<noteq> 400"
  by (simp add: receive_esp_data_def required_fields_def decimal_lib_def dec_float_unsigned_def
      digit_of_def)

end
